theory Spec2Isabelle
  imports Complex_Main "HOL-Library.AList"
begin

section \<open>JavaScript values used by the crawler\<close>

text \<open>
  Strings are lists of characters. The character classes below are the ones the source's
  regular expressions use without the \<open>u\<close> flag: \<open>\d\<close> is \<open>[0-9]\<close>, \<open>\w\<close> is
  \<open>[A-Za-z0-9_]\<close>, and \<open>[a-zA-Z0-9]\<close> is written out in \<open>generateProductId\<close>.
\<close>

definition isDigit :: "char \<Rightarrow> bool" where
  "isDigit c = (48 \<le> (of_char c :: nat) \<and> (of_char c :: nat) \<le> 57)"

definition isUpper :: "char \<Rightarrow> bool" where
  "isUpper c = (65 \<le> (of_char c :: nat) \<and> (of_char c :: nat) \<le> 90)"

definition isLower :: "char \<Rightarrow> bool" where
  "isLower c = (97 \<le> (of_char c :: nat) \<and> (of_char c :: nat) \<le> 122)"

definition isAlnum :: "char \<Rightarrow> bool" where
  "isAlnum c = (isLower c \<or> isUpper c \<or> isDigit c)"

definition isWordChar :: "char \<Rightarrow> bool" where
  "isWordChar c = (isAlnum c \<or> c = CHR ''_'')"

text \<open>
  A JavaScript number as far as \<open>calculateEAN13CheckDigit\<close> needs it: an integer, or
  \<open>NaN\<close> (what \<open>parseInt\<close> gives on a character that is no digit, and what every
  arithmetic operation on \<open>NaN\<close> gives).
\<close>

datatype jsnum = NaN | Num int

fun js_add :: "jsnum \<Rightarrow> jsnum \<Rightarrow> jsnum" where
  "js_add (Num a) (Num b) = Num (a + b)"
| "js_add _ _ = NaN"

fun js_mul :: "jsnum \<Rightarrow> jsnum \<Rightarrow> jsnum" where
  "js_mul (Num a) (Num b) = Num (a * b)"
| "js_mul _ _ = NaN"

fun js_sub :: "jsnum \<Rightarrow> jsnum \<Rightarrow> jsnum" where
  "js_sub (Num a) (Num b) = Num (a - b)"
| "js_sub _ _ = NaN"

text \<open>The remainder operator \<open>%\<close>: the result has the sign of the dividend; \<open>x % 0\<close> is \<open>NaN\<close>.\<close>

fun js_rem :: "jsnum \<Rightarrow> jsnum \<Rightarrow> jsnum" where
  "js_rem (Num a) (Num b) = (if b = 0 then NaN else Num (sgn a * (\<bar>a\<bar> mod \<bar>b\<bar>)))"
| "js_rem _ _ = NaN"

text \<open>\<open>parseInt(digits[i], 10)\<close> on the one-character string \<open>digits[i]\<close>.\<close>

definition parseInt_char :: "char \<Rightarrow> jsnum" where
  "parseInt_char c = (if isDigit c then Num (int (of_char c) - 48) else NaN)"

section \<open>Barcode module: the EAN-13 check digit\<close>

text \<open>
  The loop \<open>for (let i = 0; i < 12; i++)\<close> of \<open>calculateEAN13CheckDigit\<close>, run on the
  characters from index \<open>i\<close> on: \<open>sum += i % 2 === 0 ? digit : digit * 3\<close>.
\<close>

fun ean13_loop :: "nat \<Rightarrow> string \<Rightarrow> jsnum \<Rightarrow> jsnum" where
  "ean13_loop i [] sum0 = sum0"
| "ean13_loop i (c # cs) sum0 =
     ean13_loop (i + 1) cs
       (js_add sum0 (if i mod 2 = 0 then parseInt_char c else js_mul (parseInt_char c) (Num 3)))"

definition calculateEAN13CheckDigit :: "string \<Rightarrow> jsnum" where
  "calculateEAN13CheckDigit digits =
     (if length digits \<noteq> 12 then Num (- 1)
      else js_rem (js_sub (Num 10) (js_rem (ean13_loop 0 digits (Num 0)) (Num 10))) (Num 10))"

text \<open>
  The standard EAN-13 rule in the specification's words: positions are counted from 1, odd
  positions weigh 1 and even positions weigh 3, and the check digit is
  \<open>(10 - (sum mod 10)) mod 10\<close>.
\<close>

definition spec_ean13_weighted_sum :: "int list \<Rightarrow> int" where
  "spec_ean13_weighted_sum ds =
     (\<Sum>k\<leftarrow>[1..<length ds + 1]. (if odd k then 1 else 3) * ds ! (k - 1))"

definition spec_ean13_check_digit :: "int list \<Rightarrow> int" where
  "spec_ean13_check_digit ds = (10 - spec_ean13_weighted_sum ds mod 10) mod 10"

definition digit_values :: "string \<Rightarrow> int list" where
  "digit_values s = map (\<lambda>c. int (of_char c) - 48) s"

section \<open>Database module: crawl jobs and the bounded error log\<close>

text \<open>
  A row of the table \<open>crawl_jobs\<close>. The column \<open>error_log\<close> holds \<open>NULL\<close> or the JSON text
  that \<open>appendJobError\<close> wrote; it is modelled by the list that text denotes, since the
  only reader parses it back with \<open>JSON.parse\<close>.
\<close>

record error_entry =
  timestamp :: string
  error :: string

record crawl_job =
  homepage_url :: string
  status :: string
  finished_at :: "string option"
  total_categories :: int
  processed_categories :: int
  total_products :: int
  processed_products :: int
  errors :: int
  error_log :: "error_entry list option"

type_synonym job_table = "string \<rightharpoonup> crawl_job"

text \<open>\<open>errors.slice(-100)\<close>: the last 100 elements, or the whole array when it is shorter.\<close>

definition slice_last :: "nat \<Rightarrow> 'a list \<Rightarrow> 'a list" where
  "slice_last n xs = drop (length xs - n) xs"

text \<open>
  \<open>appendJobError(jobId, error)\<close>. \<open>now\<close> is what \<open>new Date().toISOString()\<close> returns at the
  call. The \<open>UPDATE ... WHERE job_id = ?\<close> changes nothing when the job has no row.
\<close>

definition appendJobError :: "job_table \<Rightarrow> string \<Rightarrow> string \<Rightarrow> string \<Rightarrow> job_table" where
  "appendJobError jobs jobId now err =
     (let errors0 = (case jobs jobId of
                       None \<Rightarrow> []
                     | Some job \<Rightarrow> (case error_log job of None \<Rightarrow> [] | Some l \<Rightarrow> l));
          errors1 = errors0 @ [\<lparr>timestamp = now, error = err\<rparr>];
          trimmed = slice_last 100 errors1
      in case jobs jobId of
           None \<Rightarrow> jobs
         | Some job \<Rightarrow> jobs(jobId \<mapsto> job\<lparr>error_log := Some trimmed, errors := errors job + 1\<rparr>))"

text \<open>A sequence of appends, each with its own time and message.\<close>

fun appendJobErrors :: "job_table \<Rightarrow> string \<Rightarrow> (string \<times> string) list \<Rightarrow> job_table" where
  "appendJobErrors jobs jobId [] = jobs"
| "appendJobErrors jobs jobId ((now, err) # rest) =
     appendJobErrors (appendJobError jobs jobId now err) jobId rest"

definition stored_log :: "crawl_job \<Rightarrow> error_entry list" where
  "stored_log job = (case error_log job of None \<Rightarrow> [] | Some l \<Rightarrow> l)"

definition entries_of :: "(string \<times> string) list \<Rightarrow> error_entry list" where
  "entries_of es = map (\<lambda>(now, err). \<lparr>timestamp = now, error = err\<rparr>) es"

section \<open>Strings: case conversion and substring search\<close>

text \<open>
  Bit 5 of a character code weighs 32: it is set in \<open>a..z\<close> and clear in \<open>A..Z\<close>, so
  clearing it subtracts 32 from a small letter and setting it adds 32 to a capital.
\<close>

fun with_bit5 :: "bool \<Rightarrow> char \<Rightarrow> char" where
  "with_bit5 b (Char b0 b1 b2 b3 b4 b5 b6 b7) = Char b0 b1 b2 b3 b4 b b6 b7"

text \<open>
  \<open>toUpperCase\<close> as \<open>generateProductId\<close> uses it: on a string of ASCII letters and digits
  (what is left after the replace, or a hexadecimal digest) it maps \<open>a..z\<close> to \<open>A..Z\<close>
  and leaves every other character alone.
\<close>

definition upper_char :: "char \<Rightarrow> char" where
  "upper_char c = (if isLower c then with_bit5 False c else c)"

definition toUpperCase :: "string \<Rightarrow> string" where
  "toUpperCase s = map upper_char s"

text \<open>
  \<open>toLowerCase\<close> on code units below 256: \<open>A..Z\<close> and the Latin-1 capitals (0xC0..0xDE
  without the multiplication sign 0xD7) move up by 32, every other character stays.
\<close>

definition lower_char :: "char \<Rightarrow> char" where
  "lower_char c =
     (let n = (of_char c :: nat)
      in if (65 \<le> n \<and> n \<le> 90) \<or> (192 \<le> n \<and> n \<le> 222 \<and> n \<noteq> 215)
         then with_bit5 True c else c)"

definition toLowerCase :: "string \<Rightarrow> string" where
  "toLowerCase s = map lower_char s"

fun starts_with :: "string \<Rightarrow> string \<Rightarrow> bool" where
  "starts_with s [] = True"
| "starts_with [] (p # ps) = False"
| "starts_with (c # cs) (p # ps) = (c = p \<and> starts_with cs ps)"

text \<open>\<open>s.includes(p)\<close>: \<open>p\<close> occurs in \<open>s\<close> as a contiguous substring.\<close>

fun js_includes :: "string \<Rightarrow> string \<Rightarrow> bool" where
  "js_includes [] p = (p = [])"
| "js_includes (c # cs) p = (starts_with (c # cs) p \<or> js_includes cs p)"

section \<open>JavaScript values and errors\<close>

text \<open>
  The values a page, a JSON document or a caller can hand to the crawler. Objects are
  association lists read with \<open>map_of\<close>. Numbers are the finite ones JSON can denote.
\<close>

datatype jsval =
    JUndefined
  | JNull
  | JBool bool
  | JNum real
  | JStr string
  | JArr "jsval list"
  | JObj "(string \<times> jsval) list"

fun truthy :: "jsval \<Rightarrow> bool" where
  "truthy JUndefined = False"
| "truthy JNull = False"
| "truthy (JBool b) = b"
| "truthy (JNum n) = (n \<noteq> 0)"
| "truthy (JStr s) = (s \<noteq> [])"
| "truthy (JArr xs) = True"
| "truthy (JObj kvs) = True"

text \<open>A thrown value: the kind of error and its \<open>message\<close>.\<close>

datatype js_error = TypeError string | Error string

fun message :: "js_error \<Rightarrow> string" where
  "message (TypeError m) = m"
| "message (Error m) = m"

section \<open>Crawler module: the stable product identity\<close>

text \<open>
  \<open>generateProductId(url, sku = null)\<close>. \<open>sha1_hex url\<close> stands for
  \<open>crypto.createHash('sha1').update(url).digest('hex')\<close>, forty characters of \<open>0..9a..f\<close>
  computed by the platform's library. \<open>if (sku)\<close> tests truthiness; a truthy value that is
  no string has no method \<open>replace\<close>, and the call throws.
\<close>

definition generateProductId :: "(string \<Rightarrow> string) \<Rightarrow> string \<Rightarrow> jsval \<Rightarrow> js_error + string" where
  "generateProductId sha1_hex url sku =
     (if truthy sku then
        (case sku of
           JStr s \<Rightarrow> Inr (toUpperCase (take 12 (filter isAlnum s)))
         | _ \<Rightarrow> Inl (TypeError ''sku.replace is not a function''))
      else Inr (toUpperCase (take 12 (sha1_hex url))))"

text \<open>
  The identity of a declared SKU in the specification's order of words: strip every
  non-alphanumeric character, uppercase, truncate to 12 characters.
\<close>

definition spec_sku_identity :: "string \<Rightarrow> string" where
  "spec_sku_identity s = take 12 (toUpperCase (filter isAlnum s))"

section \<open>OCR module: content classification\<close>

text \<open>
  The regular expression \<open>/\d{8,14}/\<close> tested at one position: the match needs at least
  eight digits there (and takes at most fourteen).
\<close>

definition digits_8_14_here :: "string \<Rightarrow> bool" where
  "digits_8_14_here s = (8 \<le> length (takeWhile isDigit (take 14 s)))"

text \<open>\<open>/\d{8,14}/.test(text)\<close>: the positions are tried from left to right.\<close>

fun test_digits_8_14 :: "string \<Rightarrow> bool" where
  "test_digits_8_14 [] = False"
| "test_digits_8_14 (c # cs) = (digits_8_14_here (c # cs) \<or> test_digits_8_14 cs)"

definition nutritionPatterns :: "string list" where
  "nutritionPatterns =
     [''nutrition facts'', ''nutritional information'', ''per serving'',
      ''calories'', ''total fat'', ''sodium'', ''carbohydrate'', ''protein'',
      ''daily value'', ''saturated fat'', ''cholesterol'', ''dietary fiber'']"

definition ingredientPatterns :: "string list" where
  "ingredientPatterns =
     [''ingredients:'', ''ingredients'', ''contains:'', ''may contain'',
      ''allergen'', ''wheat'', ''soy'', ''milk'', ''eggs'', ''nuts'']"

text \<open>An entry of \<open>barcodePatterns\<close>: the regular expression or a string.\<close>

datatype barcode_pattern = DigitRunRegExp | StringPattern string

definition barcodePatterns :: "barcode_pattern list" where
  "barcodePatterns =
     [DigitRunRegExp, StringPattern ''ean'', StringPattern ''upc'', StringPattern ''gtin'']"

definition frontPatterns :: "string list" where
  "frontPatterns =
     [''new'', ''organic'', ''natural'', ''best before'',
      ''net weight'', ''net wt'', ''oz'', ''ml'', ''g '']"

text \<open>\<open>patterns.some(p => lowerText.includes(p))\<close>.\<close>

definition some_includes :: "string list \<Rightarrow> string \<Rightarrow> bool" where
  "some_includes patterns lowerText = list_ex (\<lambda>p. js_includes lowerText p) patterns"

text \<open>
  The loop over \<open>barcodePatterns\<close>: a string is searched in the lowercased text, the
  regular expression is tested on the text as it came.
\<close>

fun barcode_loop :: "barcode_pattern list \<Rightarrow> string \<Rightarrow> string \<Rightarrow> bool" where
  "barcode_loop [] txt lowerText = False"
| "barcode_loop (StringPattern p # ps) txt lowerText =
     (if js_includes lowerText p then True else barcode_loop ps txt lowerText)"
| "barcode_loop (DigitRunRegExp # ps) txt lowerText =
     (if test_digits_8_14 txt then True else barcode_loop ps txt lowerText)"

definition classifyImageContent :: "string \<Rightarrow> string" where
  "classifyImageContent txt =
     (let lowerText = toLowerCase txt
      in if some_includes nutritionPatterns lowerText then ''nutrition''
         else if some_includes ingredientPatterns lowerText then ''ingredients''
         else if barcode_loop barcodePatterns txt lowerText then ''barcode''
         else if some_includes frontPatterns lowerText then ''front''
         else ''other'')"

text \<open>
  The rules in the specification's words. A keyword set matches when the text contains one
  of its keywords without regard to case; the barcode indicator is a run of 8 to 14 digits
  somewhere in the text, or one of \<open>ean\<close>, \<open>upc\<close>, \<open>gtin\<close>.
\<close>

definition contains_keyword :: "string list \<Rightarrow> string \<Rightarrow> bool" where
  "contains_keyword keywords txt =
     (\<exists>k \<in> set keywords. \<exists>pre post. toLowerCase txt = pre @ k @ post)"

definition contains_digit_run :: "string \<Rightarrow> bool" where
  "contains_digit_run txt =
     (\<exists>pre run post. txt = pre @ run @ post \<and> 8 \<le> length run \<and> length run \<le> 14
        \<and> list_all isDigit run)"

definition barcode_indicator :: "string \<Rightarrow> bool" where
  "barcode_indicator txt =
     (contains_digit_run txt \<or> contains_keyword [''ean'', ''upc'', ''gtin''] txt)"

definition image_tags :: "string set" where
  "image_tags = {''nutrition'', ''ingredients'', ''barcode'', ''front'', ''other''}"

section \<open>OCR module: a barcode from OCR text\<close>

text \<open>
  The regular expression \<open>/\b(\d{n})\b/\<close> at one position of the text: \<open>n\<close> digits start
  here and no word character follows them. (The boundary in front is the caller's: the
  character before must be no word character.)
\<close>

definition digit_run_here :: "nat \<Rightarrow> string \<Rightarrow> bool" where
  "digit_run_here n s =
     (n \<le> length s \<and> list_all isDigit (take n s)
      \<and> (case drop n s of [] \<Rightarrow> True | d # _ \<Rightarrow> \<not> isWordChar d))"

text \<open>
  \<open>text.match(/\b(\d{n})\b/)\<close>: the leftmost match, or \<open>null\<close>. \<open>prevWord\<close> says whether
  the character before the current position is a word character.
\<close>

fun match_digit_run :: "nat \<Rightarrow> bool \<Rightarrow> string \<Rightarrow> string option" where
  "match_digit_run n prevWord [] = None"
| "match_digit_run n prevWord (c # cs) =
     (if \<not> prevWord \<and> digit_run_here n (c # cs) then Some (take n (c # cs))
      else match_digit_run n (isWordChar c) cs)"

text \<open>The loop over \<open>patterns\<close> in \<open>extractBarcodeFromOCR\<close>, by the length each one asks for.\<close>

fun first_match :: "nat list \<Rightarrow> string \<Rightarrow> string option" where
  "first_match [] txt = None"
| "first_match (n # ns) txt =
     (case match_digit_run n False txt of Some m \<Rightarrow> Some m | None \<Rightarrow> first_match ns txt)"

definition extractBarcodeFromOCR :: "string \<Rightarrow> string option" where
  "extractBarcodeFromOCR txt = first_match [13, 12, 8, 14] txt"

text \<open>A standalone run of \<open>n\<close> digits: no word character touches it on either side.\<close>

definition standalone_run :: "nat \<Rightarrow> string \<Rightarrow> string \<Rightarrow> bool" where
  "standalone_run n txt run =
     (length run = n \<and> list_all isDigit run
      \<and> (\<exists>pre post. txt = pre @ run @ post
            \<and> (pre = [] \<or> \<not> isWordChar (last pre))
            \<and> (post = [] \<or> \<not> isWordChar (hd post))))"

section \<open>What the modules export\<close>

text \<open>
  The names in \<open>module.exports\<close> of the barcode module and of the OCR module. A name that
  a \<open>require\<close> destructures from a module that does not export it is bound to
  \<open>undefined\<close>.
\<close>

definition barcode_module_exports :: "string list" where
  "barcode_module_exports =
     [''detectBarcode'', ''detectBarcodesBatch'', ''validateBarcode'',
      ''calculateEAN13CheckDigit'', ''preprocessImage'']"

definition ocr_module_exports :: "string list" where
  "ocr_module_exports =
     [''initScheduler'', ''terminateScheduler'', ''extractText'', ''classifyImageContent'',
      ''parseOCRFields'', ''processProductImages'', ''extractBarcodeFromOCR'',
      ''preprocessForOCR'']"

text \<open>
  The crawler's \<open>const { detectBarcode, extractBarcodeFromOCR } = require('../barcode')\<close>:
  the function the name \<open>extractBarcodeFromOCR\<close> is bound to in the crawler, if any.
\<close>

definition crawler_extractBarcodeFromOCR :: "(string \<Rightarrow> string option) option" where
  "crawler_extractBarcodeFromOCR =
     (if ''extractBarcodeFromOCR'' \<in> set barcode_module_exports
      then Some extractBarcodeFromOCR else None)"

section \<open>Crawler module: fusing the sources of a product page\<close>

text \<open>Reading a property of an object: \<open>undefined\<close> when the object has no such key.\<close>

definition lookup :: "(string \<times> jsval) list \<Rightarrow> string \<Rightarrow> jsval" where
  "lookup obj k = (case map_of obj k of None \<Rightarrow> JUndefined | Some v \<Rightarrow> v)"

text \<open>
  \<open>x?.k\<close>, and \<open>x.k\<close> on a value that is neither \<open>null\<close> nor \<open>undefined\<close>: only objects
  carry the keys read here.
\<close>

fun opt_prop :: "jsval \<Rightarrow> string \<Rightarrow> jsval" where
  "opt_prop (JObj obj) k = lookup obj k"
| "opt_prop _ k = JUndefined"

text \<open>\<open>a || b\<close>.\<close>

definition js_or :: "jsval \<Rightarrow> jsval \<Rightarrow> jsval" where
  "js_or a b = (if truthy a then a else b)"

fun decimal :: "nat \<Rightarrow> string" where
  "decimal n = (if n < 10 then [''0123456789'' ! n]
                else decimal (n div 10) @ [''0123456789'' ! (n mod 10)])"

declare decimal.simps [simp del]

text \<open>
  The own enumerable properties that \<open>{...x}\<close> copies: an object's entries, the indexed
  elements of an array or the indexed characters of a string, and nothing for \<open>null\<close>,
  \<open>undefined\<close>, a boolean or a number.
\<close>

fun spread :: "jsval \<Rightarrow> (string \<times> jsval) list" where
  "spread (JObj obj) = obj"
| "spread (JArr xs) = map (\<lambda>i. (decimal i, xs ! i)) [0..<length xs]"
| "spread (JStr s) = map (\<lambda>i. (decimal i, JStr [s ! i])) [0..<length s]"
| "spread _ = []"

text \<open>
  \<open>{ ...a, ...b }\<close> on the entries of \<open>a\<close> and \<open>b\<close>: a key of \<open>b\<close> replaces the value
  \<open>a\<close> had for it, a new key is added.
\<close>

definition spread2 :: "(string \<times> jsval) list \<Rightarrow> (string \<times> jsval) list \<Rightarrow> (string \<times> jsval) list" where
  "spread2 a b = AList.merge a b"

text \<open>
  What the DOM script of \<open>extractProductData\<close> returns: an object with these seven keys,
  each value found by the browser through the selector lists.
\<close>

record dom_data =
  dom_name :: jsval
  dom_brand :: jsval
  dom_price :: jsval
  dom_description :: jsval
  dom_sku :: jsval
  dom_images :: jsval
  dom_breadcrumb :: jsval

definition dom_object :: "dom_data \<Rightarrow> (string \<times> jsval) list" where
  "dom_object d =
     [(''name'', dom_name d), (''brand'', dom_brand d), (''price'', dom_price d),
      (''description'', dom_description d), (''sku'', dom_sku d), (''images'', dom_images d),
      (''breadcrumb'', dom_breadcrumb d)]"

text \<open>
  \<open>if (jsonData) structuredData = { ...structuredData, ...jsonData.product, ...jsonData.item }\<close>:
  the entries of the structured source after the intercepted response has been laid over it.
  \<open>structuredData\<close> is the JSON-LD product the page script found, or \<open>null\<close>.
\<close>

definition overlay_intercepted :: "jsval \<Rightarrow> jsval \<Rightarrow> jsval" where
  "overlay_intercepted structuredData jsonData =
     (if truthy jsonData
      then JObj (spread2 (spread2 (spread structuredData) (spread (opt_prop jsonData ''product'')))
                   (spread (opt_prop jsonData ''item'')))
      else structuredData)"

text \<open>\<open>const merged = { ...domData, ...structuredData }\<close>.\<close>

definition merged_sources :: "dom_data \<Rightarrow> jsval \<Rightarrow> jsval \<Rightarrow> (string \<times> jsval) list" where
  "merged_sources domData structuredData jsonData =
     spread2 (dom_object domData) (spread (overlay_intercepted structuredData jsonData))"

text \<open>
  The page-independent helpers of the extraction: the digest behind the identity,
  \<open>price_match\<close> for \<open>merged.price.match(...)\<close> followed by \<open>parseFloat\<close> (the captured
  currency text, if any, and the number), and the clock behind \<open>scrape_date\<close>.
\<close>

record extract_env =
  sha1_hex :: "string \<Rightarrow> string"
  price_match :: "string \<Rightarrow> (string option \<times> real) option"
  scrape_now :: string

record product_data =
  pd_product_id :: string
  pd_url :: string
  pd_name :: jsval
  pd_brand :: jsval
  pd_category :: jsval
  pd_variant :: jsval
  pd_price :: "real option"
  pd_currency :: "string option"
  pd_description :: jsval
  pd_ingredients :: jsval
  pd_nutrition :: jsval
  pd_manufacturer :: jsval
  pd_origin :: jsval
  pd_availability :: jsval
  pd_scrape_date :: string
  pd_source_site :: string
  pd_images :: jsval

text \<open>
  The price block: \<open>merged.price\<close> is matched only when truthy; a truthy value that is no
  string has no method \<open>match\<close>, and the call throws.
\<close>

definition parse_price :: "extract_env \<Rightarrow> jsval \<Rightarrow> js_error + (real option \<times> string option)" where
  "parse_price env p =
     (if truthy p then
        (case p of
           JStr s \<Rightarrow>
             (case price_match env s of
                None \<Rightarrow> Inr (None, None)
              | Some (cur, amount) \<Rightarrow>
                  Inr (Some amount,
                       Some (case cur of None \<Rightarrow> ''USD''
                                       | Some c \<Rightarrow> if c = [] then ''USD'' else c)))
         | _ \<Rightarrow> Inl (TypeError ''merged.price.match is not a function''))
      else Inr (None, None))"

definition extractProductData ::
  "extract_env \<Rightarrow> string \<Rightarrow> string \<Rightarrow> string \<Rightarrow> jsval \<Rightarrow> jsval \<Rightarrow> dom_data
     \<Rightarrow> js_error + product_data" where
  "extractProductData env productUrl category baseDomain jsonData structuredData domData =
     (let merged = merged_sources domData structuredData jsonData
      in case parse_price env (lookup merged ''price'') of
           Inl e \<Rightarrow> Inl e
         | Inr (price, currency) \<Rightarrow>
             (case generateProductId (sha1_hex env) productUrl (lookup merged ''sku'') of
                Inl e \<Rightarrow> Inl e
              | Inr productId \<Rightarrow>
                  Inr \<lparr>pd_product_id = productId,
                       pd_url = productUrl,
                       pd_name = js_or (lookup merged ''name'') (lookup merged ''title''),
                       pd_brand = js_or (opt_prop (lookup merged ''brand'') ''name'')
                                        (lookup merged ''brand''),
                       pd_category = js_or (lookup merged ''breadcrumb'') (JStr category),
                       pd_variant = js_or (lookup merged ''variant'') (lookup merged ''size''),
                       pd_price = price,
                       pd_currency = currency,
                       pd_description = lookup merged ''description'',
                       pd_ingredients = lookup merged ''ingredients'',
                       pd_nutrition = lookup merged ''nutrition'',
                       pd_manufacturer = lookup merged ''manufacturer'',
                       pd_origin = js_or (lookup merged ''origin'') (lookup merged ''countryOfOrigin''),
                       pd_availability = js_or (lookup merged ''availability'')
                                          (opt_prop (lookup merged ''offers'') ''availability''),
                       pd_scrape_date = scrape_now env,
                       pd_source_site = baseDomain,
                       pd_images = js_or (lookup merged ''images'') (JArr [])\<rparr>))"

text \<open>
  The merge rule in the specification's words: the sources in precedence order, highest
  first, and for a field the value of the first source that defines a non-empty value
  (\<open>undefined\<close> when none does). A value is empty when it is \<open>undefined\<close>, \<open>null\<close> or
  the empty string.
\<close>

definition non_empty :: "jsval \<Rightarrow> bool" where
  "non_empty v = (v \<noteq> JUndefined \<and> v \<noteq> JNull \<and> v \<noteq> JStr [])"

fun first_non_empty :: "jsval list \<Rightarrow> jsval" where
  "first_non_empty [] = JUndefined"
| "first_non_empty (v # vs) = (if non_empty v then v else first_non_empty vs)"

definition intercepted_source :: "jsval \<Rightarrow> (string \<times> jsval) list" where
  "intercepted_source jsonData =
     (if truthy jsonData
      then spread2 (spread (opt_prop jsonData ''product'')) (spread (opt_prop jsonData ''item''))
      else [])"

definition spec_fused :: "dom_data \<Rightarrow> jsval \<Rightarrow> jsval \<Rightarrow> string \<Rightarrow> jsval" where
  "spec_fused domData structuredData jsonData k =
     first_non_empty
       [lookup (intercepted_source jsonData) k,
        lookup (spread structuredData) k,
        lookup (dom_object domData) k]"

text \<open>
  What the code does instead: the value of the highest source that has the key at all.
\<close>

definition key_fused :: "dom_data \<Rightarrow> jsval \<Rightarrow> jsval \<Rightarrow> string \<Rightarrow> jsval" where
  "key_fused domData structuredData jsonData k =
     (case map_of (intercepted_source jsonData) k of
        Some v \<Rightarrow> v
      | None \<Rightarrow>
         (case map_of (spread structuredData) k of
            Some v \<Rightarrow> v
          | None \<Rightarrow> lookup (dom_object domData) k))"

section \<open>Database module: products and images\<close>

text \<open>
  The parsed fields of an OCR text: an object whose values are strings or \<open>true\<close>.
\<close>

datatype field_value = FStr string | FBool bool

type_synonym ocr_fields = "(string \<times> field_value) list"

fun field_truthy :: "field_value \<Rightarrow> bool" where
  "field_truthy (FStr s) = (s \<noteq> [])"
| "field_truthy (FBool b) = b"

text \<open>
  A row of the table \<open>products\<close> (without the two columns the database stamps itself). The
  column \<open>ocr_fields_json\<close> holds the JSON text of the field object; it is modelled by the
  object.
\<close>

record product_row =
  product_id :: string
  url :: string
  name :: "string option"
  brand :: "string option"
  category :: "string option"
  variant :: "string option"
  price :: "real option"
  currency :: "string option"
  description :: "string option"
  ingredients :: "string option"
  nutrition :: "string option"
  manufacturer :: "string option"
  origin :: "string option"
  availability :: "string option"
  scrape_date :: "string option"
  source_site :: "string option"
  merged_ocr_text :: "string option"
  ocr_fields_json :: "ocr_fields option"

text \<open>\<open>x || null\<close> on a text and on a number.\<close>

definition text_or_null :: "string option \<Rightarrow> string option" where
  "text_or_null x = (case x of None \<Rightarrow> None | Some s \<Rightarrow> if s = [] then None else Some s)"

definition number_or_null :: "real option \<Rightarrow> real option" where
  "number_or_null x = (case x of None \<Rightarrow> None | Some n \<Rightarrow> if n = 0 then None else Some n)"

definition getProduct :: "product_row list \<Rightarrow> string \<Rightarrow> product_row option" where
  "getProduct rows productId = find (\<lambda>r. product_id r = productId) rows"

text \<open>The values \<open>upsertProduct\<close> binds to the statement, from the object it is given.\<close>

definition bound_product :: "string \<Rightarrow> product_row \<Rightarrow> product_row" where
  "bound_product now p =
     p\<lparr>name := text_or_null (name p), brand := text_or_null (brand p),
       category := text_or_null (category p), variant := text_or_null (variant p),
       price := number_or_null (price p), currency := text_or_null (currency p),
       description := text_or_null (description p), ingredients := text_or_null (ingredients p),
       nutrition := text_or_null (nutrition p), manufacturer := text_or_null (manufacturer p),
       origin := text_or_null (origin p), availability := text_or_null (availability p),
       scrape_date := (case text_or_null (scrape_date p) of None \<Rightarrow> Some now | Some d \<Rightarrow> Some d),
       source_site := text_or_null (source_site p),
       merged_ocr_text := text_or_null (merged_ocr_text p)\<rparr>"

text \<open>
  \<open>INSERT ... ON CONFLICT(product_id) DO UPDATE\<close>: a row with the same \<open>product_id\<close> keeps
  its \<open>url\<close> and \<open>source_site\<close> and takes every other column from the new values; otherwise
  the row is inserted, unless another row already has the \<open>url\<close> (the column is \<open>UNIQUE\<close>).
\<close>

definition upsertProduct :: "string \<Rightarrow> product_row list \<Rightarrow> product_row \<Rightarrow> js_error + product_row list" where
  "upsertProduct now rows p =
     (let b = bound_product now p
      in if list_ex (\<lambda>r. product_id r = product_id b) rows
         then Inr (map (\<lambda>r. if product_id r = product_id b
                              then b\<lparr>url := url r, source_site := source_site r\<rparr> else r) rows)
         else if list_ex (\<lambda>r. url r = url b) rows
         then Inl (Error ''UNIQUE constraint failed: products.url'')
         else Inr (rows @ [b]))"

record image_row =
  img_product_id :: string
  image_url :: "string option"
  local_path :: "string option"
  tag :: string
  barcode_value :: "string option"
  barcode_type :: "string option"
  barcode_confidence :: "real option"
  img_ocr_text :: "string option"
  img_ocr_confidence :: "real option"

definition imageExists :: "image_row list \<Rightarrow> string \<Rightarrow> string \<Rightarrow> bool" where
  "imageExists rows productId imageUrl =
     list_ex (\<lambda>r. img_product_id r = productId \<and> image_url r = Some imageUrl) rows"

text \<open>
  \<open>addImage\<close>: every optional value goes through \<open>|| null\<close>, the tag through \<open>|| 'other'\<close>.
  The column \<open>product_id\<close> of \<open>images\<close> is a foreign key into \<open>products\<close>, which the database
  library enforces: the \<open>INSERT\<close> throws when \<open>productRows\<close>, the table \<open>products\<close>, has no row
  with that identity.
\<close>

definition addImage :: "product_row list \<Rightarrow> image_row list \<Rightarrow> image_row \<Rightarrow> js_error + image_row list" where
  "addImage productRows rows img =
     (if \<not> list_ex (\<lambda>r. product_id r = img_product_id img) productRows
      then Inl (Error ''FOREIGN KEY constraint failed'')
      else Inr (rows @ [img\<lparr>image_url := text_or_null (image_url img),
                  local_path := text_or_null (local_path img),
                  tag := (if tag img = [] then ''other'' else tag img),
                  barcode_value := text_or_null (barcode_value img),
                  barcode_type := text_or_null (barcode_type img),
                  barcode_confidence := number_or_null (barcode_confidence img),
                  img_ocr_text := text_or_null (img_ocr_text img),
                  img_ocr_confidence := number_or_null (img_ocr_confidence img)\<rparr>]))"

section \<open>Barcode module: decoding with the fallback chain\<close>

record barcode_result =
  bc_value :: string
  bc_format :: string
  bc_confidence :: real

record ocr_result =
  ocr_text :: string
  ocr_confidence :: real

text \<open>
  The collaborators of the image pipeline. \<open>fetch_image\<close> throws, or answers without
  success (\<open>None\<close>), or delivers the bytes. \<open>variants\<close> is \<open>preprocessImage\<close>, the list of
  preprocessed buffers in the order they are tried. \<open>zxing_read\<close> lists the symbols the
  decoder reads in a buffer as (text, format), empty also when decoding fails.
  \<open>ocr_engine\<close> is \<open>extractText\<close>, which catches its own failures and then returns the empty
  text. \<open>parseOCRFields\<close> is the regular-expression field parser of the OCR module, taken
  by its result. \<open>save_jpeg\<close> writes the file and may throw; \<open>path_join\<close> is \<open>path.join\<close>.
\<close>

record image_env =
  fetch_image :: "string \<Rightarrow> js_error + string option"
  variants :: "string \<Rightarrow> string list"
  zxing_read :: "string \<Rightarrow> (string \<times> string) list"
  ocr_engine :: "string \<Rightarrow> ocr_result"
  parseOCRFields :: "string \<Rightarrow> ocr_fields"
  save_jpeg :: "string \<Rightarrow> string \<Rightarrow> js_error option"
  path_join :: "string \<Rightarrow> string \<Rightarrow> string"
  enableBarcode :: bool
  enableOCR :: bool
  imageDir :: string
  image_now :: string

text \<open>The confidence \<open>decodeWithZXing\<close> gives a decode, and the one given to OCR digits.\<close>

definition decode_confidence :: real where
  "decode_confidence = 0.95"

definition ocr_barcode_confidence :: real where
  "ocr_barcode_confidence = 0.5"

definition decodeWithZXing :: "image_env \<Rightarrow> string \<Rightarrow> barcode_result option" where
  "decodeWithZXing env buffer =
     (case zxing_read env buffer of
        [] \<Rightarrow> None
      | (t, f) # _ \<Rightarrow> Some \<lparr>bc_value = t, bc_format = f, bc_confidence = decode_confidence\<rparr>)"

text \<open>The loop of \<open>detectBarcode\<close>: the first variant that decodes ends it.\<close>

fun decode_variants :: "image_env \<Rightarrow> string list \<Rightarrow> barcode_result option" where
  "decode_variants env [] = None"
| "decode_variants env (v # vs) =
     (case decodeWithZXing env v of Some r \<Rightarrow> Some r | None \<Rightarrow> decode_variants env vs)"

definition detectBarcode :: "image_env \<Rightarrow> string \<Rightarrow> barcode_result option" where
  "detectBarcode env buffer = decode_variants env (variants env buffer)"

section \<open>Crawler module: processing the images of a product\<close>

text \<open>
  The variables of the image loop: the image table, the two counters of \<open>stats\<close> it
  increments, and the accumulators \<open>ocrTexts\<close> and \<open>ocrFields\<close>.
\<close>

record image_loop =
  images :: "image_row list"
  stat_images :: nat
  stat_barcodes :: nat
  ocrTexts :: "string list"
  ocrFields :: ocr_fields

text \<open>\<open>String(i + 1).padStart(2, '0')\<close>.\<close>

definition indexStr :: "nat \<Rightarrow> string" where
  "indexStr i = (let s = decimal (i + 1) in if length s < 2 then ''0'' @ s else s)"

text \<open>
  The body of the \<open>try\<close> block for one downloaded image, with the table \<open>products\<close> as it
  is during the loop. The result is the value thrown, if any, and the loop variables as the
  body left them: what it assigned before a throw stays assigned.
\<close>

definition image_try :: "image_env \<Rightarrow> product_row list \<Rightarrow> string \<Rightarrow> nat \<Rightarrow> string \<Rightarrow> string
    \<Rightarrow> image_loop \<Rightarrow> js_error option \<times> image_loop" where
  "image_try env productRows productId i imageUrl buffer lp =
     (let decoded = (if enableBarcode env then detectBarcode env buffer else None);
          tag0 = (if decoded = None then ''other'' else ''barcode'');
          lp1 = (if decoded = None then lp else lp\<lparr>stat_barcodes := stat_barcodes lp + 1\<rparr>);
          finish = (\<lambda>tag1 barcodeResult ocrResult lp2.
             let localPath = path_join env (path_join env (imageDir env) productId)
                   (productId @ ''__img'' @ indexStr i @ ''__'' @ tag1 @ ''.jpg'')
             in case save_jpeg env buffer localPath of
                  Some e \<Rightarrow> (Some e, lp2)
                | None \<Rightarrow>
                    (case addImage productRows (images lp2)
                            \<lparr>img_product_id = productId,
                             image_url = Some imageUrl,
                             local_path = Some localPath,
                             tag = tag1,
                             barcode_value = map_option bc_value barcodeResult,
                             barcode_type = map_option bc_format barcodeResult,
                             barcode_confidence = map_option bc_confidence barcodeResult,
                             img_ocr_text = map_option ocr_text ocrResult,
                             img_ocr_confidence = map_option ocr_confidence ocrResult\<rparr> of
                       Inl e \<Rightarrow> (Some e, lp2)
                     | Inr rows \<Rightarrow>
                         (None, lp2\<lparr>images := rows, stat_images := stat_images lp2 + 1\<rparr>)))
      in if enableOCR env then
           (let ocrResult = ocr_engine env buffer
            in if ocr_text ocrResult \<noteq> [] then
                 (let tag1 = classifyImageContent (ocr_text ocrResult);
                      lp2 = lp1\<lparr>ocrTexts := ocrTexts lp1 @ [ocr_text ocrResult],
                                ocrFields := AList.merge (ocrFields lp1)
                                               (parseOCRFields env (ocr_text ocrResult))\<rparr>
                  in if decoded = None then
                       (case crawler_extractBarcodeFromOCR of
                          None \<Rightarrow> (Some (TypeError ''extractBarcodeFromOCR is not a function''), lp2)
                        | Some f \<Rightarrow>
                            (case f (ocr_text ocrResult) of
                               None \<Rightarrow> finish tag1 None (Some ocrResult) lp2
                             | Some ocrBarcode \<Rightarrow>
                                 finish tag1
                                   (Some \<lparr>bc_value = ocrBarcode,
                                          bc_format = (if length ocrBarcode = 13 then ''EAN-13''
                                                       else ''Unknown''),
                                          bc_confidence = ocr_barcode_confidence\<rparr>)
                                   (Some ocrResult) lp2))
                     else finish tag1 decoded (Some ocrResult) lp2)
               else finish tag0 decoded (Some ocrResult) lp1)
         else finish tag0 decoded None lp1)"

text \<open>
  One round of the \<open>for\<close> loop: an image already recorded is skipped, a download that
  throws or fails is skipped, and whatever the \<open>try\<close> block throws is caught and logged to
  the console only.
\<close>

definition image_round ::
  "image_env \<Rightarrow> product_row list \<Rightarrow> string \<Rightarrow> nat \<Rightarrow> string \<Rightarrow> image_loop \<Rightarrow> image_loop" where
  "image_round env productRows productId i imageUrl lp =
     (if imageExists (images lp) productId imageUrl then lp
      else case fetch_image env imageUrl of
             Inl e \<Rightarrow> lp
           | Inr None \<Rightarrow> lp
           | Inr (Some buffer) \<Rightarrow> snd (image_try env productRows productId i imageUrl buffer lp))"

text \<open>\<open>for (let i = 0; i < imageUrls.length && i < 10; i++)\<close>, from index \<open>i\<close> on.\<close>

fun image_rounds ::
  "image_env \<Rightarrow> product_row list \<Rightarrow> string \<Rightarrow> nat \<Rightarrow> string list \<Rightarrow> image_loop \<Rightarrow> image_loop" where
  "image_rounds env productRows productId i [] lp = lp"
| "image_rounds env productRows productId i (imageUrl # imageUrls) lp =
     (if i < 10 then image_rounds env productRows productId (i + 1) imageUrls
                       (image_round env productRows productId i imageUrl lp)
      else lp)"

text \<open>\<open>ocrTexts.join('\n---\n')\<close>.\<close>

fun join_texts :: "string list \<Rightarrow> string" where
  "join_texts [] = []"
| "join_texts [t] = t"
| "join_texts (t # ts) = t @ [CHR 0x0A] @ ''---'' @ [CHR 0x0A] @ join_texts ts"

text \<open>The tables and counters \<open>processProductImages\<close> works on.\<close>

record image_state =
  products :: "product_row list"
  image_rows :: "image_row list"
  images_count :: nat
  barcodes_count :: nat

definition processProductImages ::
  "image_env \<Rightarrow> string \<Rightarrow> string list \<Rightarrow> image_state \<Rightarrow> js_error + image_state" where
  "processProductImages env productId imageUrls st =
     (let lp = image_rounds env (products st) productId 0 imageUrls
                 \<lparr>images = image_rows st, stat_images = images_count st,
                  stat_barcodes = barcodes_count st, ocrTexts = [], ocrFields = []\<rparr>;
          st1 = st\<lparr>image_rows := images lp, images_count := stat_images lp,
                    barcodes_count := stat_barcodes lp\<rparr>
      in if ocrTexts lp \<noteq> [] then
           (case getProduct (products st1) productId of
              None \<Rightarrow> Inr st1
            | Some product \<Rightarrow>
                (case upsertProduct (image_now env) (products st1)
                        (product\<lparr>merged_ocr_text := Some (join_texts (ocrTexts lp)),
                                 ocr_fields_json := Some (ocrFields lp)\<rparr>) of
                   Inl e \<Rightarrow> Inl e
                 | Inr rows \<Rightarrow> Inr (st1\<lparr>products := rows\<rparr>)))
         else Inr st1)"

text \<open>The field map a product row ends with, read at one key.\<close>

definition stored_field :: "js_error + image_state \<Rightarrow> string \<Rightarrow> string \<Rightarrow> field_value option" where
  "stored_field result productId k =
     (case result of
        Inl e \<Rightarrow> None
      | Inr st \<Rightarrow>
          (case getProduct (products st) productId of
             None \<Rightarrow> None
           | Some row \<Rightarrow>
               (case ocr_fields_json row of None \<Rightarrow> None | Some flds \<Rightarrow> map_of flds k)))"

section \<open>OCR module: merging the fields of several images\<close>

record ocr_image =
  oi_index :: nat
  oi_text :: string
  oi_confidence :: real
  oi_tag :: string
  oi_fields :: ocr_fields

record ocr_results =
  res_images :: "ocr_image list"
  merged_text :: string
  parsed_fields :: ocr_fields
  tags :: "string list"

text \<open>
  \<open>for (const [key, value] of Object.entries(fields)) if (!results.parsed_fields[key])
  results.parsed_fields[key] = value\<close>: a key is written only while it has no truthy value.
\<close>

fun merge_first_seen :: "ocr_fields \<Rightarrow> ocr_fields \<Rightarrow> ocr_fields" where
  "merge_first_seen parsed [] = parsed"
| "merge_first_seen parsed ((k, v) # entries) =
     merge_first_seen
       (case map_of parsed k of
          None \<Rightarrow> AList.update k v parsed
        | Some old \<Rightarrow> if field_truthy old then parsed else AList.update k v parsed)
       entries"

text \<open>The OCR module's own \<open>processProductImages(images)\<close>, from index \<open>i\<close> on.\<close>

fun ocr_processProductImages :: "image_env \<Rightarrow> nat \<Rightarrow> string list \<Rightarrow> ocr_results \<Rightarrow> ocr_results" where
  "ocr_processProductImages env i [] results = results"
| "ocr_processProductImages env i (img # rest) results =
     (let ocrResult = ocr_engine env img;
          tag1 = classifyImageContent (ocr_text ocrResult);
          flds = parseOCRFields env (ocr_text ocrResult)
      in ocr_processProductImages env (i + 1) rest
           \<lparr>res_images = res_images results @
               [\<lparr>oi_index = i, oi_text = ocr_text ocrResult,
                 oi_confidence = ocr_confidence ocrResult, oi_tag = tag1, oi_fields = flds\<rparr>],
            merged_text = merged_text results @ ocr_text ocrResult @ [CHR 0x0A],
            parsed_fields = merge_first_seen (parsed_fields results)
                              (AList.clearjunk flds),
            tags = tags results @ [tag1]\<rparr>)"

section \<open>Database module: job status and counters\<close>

text \<open>The integer columns of \<open>crawl_jobs\<close> that the crawler names in its calls.\<close>

datatype job_column =
  TotalCategories | ProcessedCategories | TotalProducts | ProcessedProducts | Errors

fun column :: "job_column \<Rightarrow> crawl_job \<Rightarrow> int" where
  "column TotalCategories j = total_categories j"
| "column ProcessedCategories j = processed_categories j"
| "column TotalProducts j = total_products j"
| "column ProcessedProducts j = processed_products j"
| "column Errors j = errors j"

fun set_column :: "job_column \<Rightarrow> int \<Rightarrow> crawl_job \<Rightarrow> crawl_job" where
  "set_column TotalCategories v j = j\<lparr>total_categories := v\<rparr>"
| "set_column ProcessedCategories v j = j\<lparr>processed_categories := v\<rparr>"
| "set_column TotalProducts v j = j\<lparr>total_products := v\<rparr>"
| "set_column ProcessedProducts v j = j\<lparr>processed_products := v\<rparr>"
| "set_column Errors v j = j\<lparr>errors := v\<rparr>"

text \<open>\<open>incrementJobCounter(jobId, field, amount = 1)\<close>.\<close>

definition incrementJobCounter :: "job_table \<Rightarrow> string \<Rightarrow> job_column \<Rightarrow> int \<Rightarrow> job_table" where
  "incrementJobCounter jobs jobId field amount =
     (case jobs jobId of
        None \<Rightarrow> jobs
      | Some job \<Rightarrow> jobs(jobId \<mapsto> set_column field (column field job + amount) job))"

text \<open>
  \<open>updateJobStatus(jobId, status, additionalFields = {})\<close>; \<open>now\<close> is the database's
  \<open>datetime('now')\<close>, stored for the three final statuses.
\<close>

definition updateJobStatus ::
  "job_table \<Rightarrow> string \<Rightarrow> string \<Rightarrow> string \<Rightarrow> (job_column \<times> int) list \<Rightarrow> job_table" where
  "updateJobStatus jobs jobId newStatus now additionalFields =
     (case jobs jobId of
        None \<Rightarrow> jobs
      | Some job \<Rightarrow>
          (let job1 = job\<lparr>status := newStatus\<rparr>;
               job2 = (if newStatus = ''completed'' \<or> newStatus = ''failed'' \<or> newStatus = ''stopped''
                       then job1\<lparr>finished_at := Some now\<rparr> else job1);
               job3 = fold (\<lambda>(k, v) j. set_column k v j) additionalFields job2
           in jobs(jobId \<mapsto> job3)))"

section \<open>Crawler module: traversal of a category\<close>

record category =
  cat_url :: string
  cat_name :: string

text \<open>
  The five selectors that \<open>hasNextPage\<close> hands to \<open>document.querySelector\<close>, in the order of
  its array: \<open>a[rel="next"]\<close>, \<open>.pagination .next:not(.disabled)\<close>,
  \<open>[class*="next"]:not(.disabled) a\<close>, \<open>a:has-text("Next")\<close> and \<open>a:has-text(">")\<close>.
\<close>

datatype next_selector = RelNext | PaginationNext | ClassNextLink | HasTextNext | HasTextGt

definition nextSelectors :: "next_selector list" where
  "nextSelectors = [RelNext, PaginationNext, ClassNextLink, HasTextNext, HasTextGt]"

text \<open>
  Whether the selector is CSS. \<open>:has-text(...)\<close> is a pseudo-class of the browser
  automation library's own selector engine; \<open>document.querySelector\<close> of the page does not
  know it and throws on it.
\<close>

fun css_valid :: "next_selector \<Rightarrow> bool" where
  "css_valid RelNext = True"
| "css_valid PaginationNext = True"
| "css_valid ClassNextLink = True"
| "css_valid HasTextNext = False"
| "css_valid HasTextGt = False"

text \<open>
  A listing page after \<open>page.goto\<close>, the scrolling and \<open>extractProductLinks\<close>: the product
  links found on it, and for each selector that is CSS the first element it matches, if
  any, given by whether the element's class list contains \<open>disabled\<close>.
\<close>

record listing_page =
  productUrls :: "string list"
  nextControls :: "next_selector \<Rightarrow> bool option"

text \<open>
  The world around a crawl. \<open>newPage_error\<close>: whether opening the page for a category
  throws. \<open>setPageParam\<close>: the URL with its \<open>page\<close> or \<open>p\<close> parameter set, as the platform's
  URL class computes it (or throws). \<open>loadPage\<close>: the page behind a URL, or the error that
  loading, scrolling or link extraction throws. \<open>crawlProduct\<close>: whether the visit of a
  product throws. The three \<open>stop\<close> fields say during which page load, product visit (with
  the delay after it) or pause after a category somebody calls \<open>stopCrawl()\<close>. \<open>clock\<close> is
  the sequence of times shown at successive readings, by \<open>new Date()\<close> or by the
  database. \<open>selector_error\<close> is what \<open>page.evaluate\<close> throws when \<open>document.querySelector\<close>
  rejects a selector. The visit of a product (extraction, upsert and image processing) is taken by
  its outcome here, so the counters \<open>images\<close> and \<open>barcodes\<close> of \<open>stats\<close> stay as they are.
\<close>

record crawl_env =
  newPage_error :: "string \<Rightarrow> js_error option"
  setPageParam :: "string \<Rightarrow> nat \<Rightarrow> js_error + string"
  loadPage :: "string \<Rightarrow> js_error + listing_page"
  crawlProduct :: "string \<Rightarrow> js_error option"
  stopDuringPage :: "string \<Rightarrow> bool"
  stopDuringProduct :: "string \<Rightarrow> bool"
  stopAfterCategory :: "string \<Rightarrow> bool"
  clock :: "nat \<Rightarrow> string"
  initBrowser_error :: "js_error option"
  discoverCategories :: "string \<Rightarrow> js_error + category list"
  stopDuringDiscovery :: bool
  selector_error :: "next_selector \<Rightarrow> js_error"

record crawl_stats =
  stats_categories :: nat
  stats_products :: nat
  stats_images :: nat
  stats_barcodes :: nat
  stats_errors :: nat

text \<open>
  The crawler object with the job table of its database. \<open>clock_reads\<close> counts the
  readings of the clock; \<open>pagesLoaded\<close> and \<open>handedOff\<close> record, in order, the URLs given
  to \<open>page.goto\<close> and to \<open>crawlProduct\<close>.
\<close>

record crawler =
  jobs :: job_table
  jobId :: string
  running :: bool
  stopRequested :: bool
  processedUrls :: "string set"
  discoveredProducts :: "string set"
  stats :: crawl_stats
  clock_reads :: nat
  pagesLoaded :: "string list"
  handedOff :: "string list"

definition getPaginatedUrl :: "crawl_env \<Rightarrow> string \<Rightarrow> nat \<Rightarrow> js_error + string" where
  "getPaginatedUrl env u pageNum = (if pageNum = 1 then Inr u else setPageParam env u pageNum)"

text \<open>A \<open>catch\<close> block of the crawler: \<open>appendJobError\<close>, then \<open>this.stats.errors++\<close>.\<close>

definition log_error :: "crawl_env \<Rightarrow> string \<Rightarrow> crawler \<Rightarrow> crawler" where
  "log_error env msg c =
     c\<lparr>jobs := appendJobError (jobs c) (jobId c) (clock env (clock_reads c)) msg,
       clock_reads := clock_reads c + 1,
       stats := (stats c)\<lparr>stats_errors := stats_errors (stats c) + 1\<rparr>\<rparr>"

text \<open>The loop over the product links of one page.\<close>

fun processProducts :: "crawl_env \<Rightarrow> string list \<Rightarrow> crawler \<Rightarrow> crawler" where
  "processProducts env [] c = c"
| "processProducts env (productUrl # rest) c =
     (if stopRequested c then c
      else if productUrl \<in> discoveredProducts c then processProducts env rest c
      else
        (let c1 = c\<lparr>discoveredProducts := insert productUrl (discoveredProducts c),
                     handedOff := handedOff c @ [productUrl]\<rparr>;
             c2 = (case crawlProduct env productUrl of
                     None \<Rightarrow>
                       c1\<lparr>stats := (stats c1)\<lparr>stats_products := stats_products (stats c1) + 1\<rparr>,
                          jobs := incrementJobCounter (jobs c1) (jobId c1) ProcessedProducts 1\<rparr>
                   | Some e \<Rightarrow> log_error env (productUrl @ '': '' @ message e) c1);
             c3 = c2\<lparr>stopRequested := (stopRequested c2 \<or> stopDuringProduct env productUrl)\<rparr>
         in processProducts env rest c3))"

text \<open>
  \<open>hasNextPage(page)\<close>: the loop over \<open>nextSelectors\<close> inside \<open>page.evaluate\<close>. It answers true
  at the first element found that is not disabled, throws where \<open>querySelector\<close> throws,
  and answers false after the last selector.
\<close>

fun next_loop :: "crawl_env \<Rightarrow> listing_page \<Rightarrow> next_selector list \<Rightarrow> js_error + bool" where
  "next_loop env pg [] = Inr False"
| "next_loop env pg (selector # rest) =
     (if \<not> css_valid selector then Inl (selector_error env selector)
      else case nextControls pg selector of
             Some disabled \<Rightarrow> if \<not> disabled then Inr True else next_loop env pg rest
           | None \<Rightarrow> next_loop env pg rest)"

definition hasNextPage :: "crawl_env \<Rightarrow> listing_page \<Rightarrow> js_error + bool" where
  "hasNextPage env pg = next_loop env pg nextSelectors"

text \<open>How control leaves the \<open>while\<close> loop of \<open>crawlCategory\<close>.\<close>

datatype loop_exit = LoopEnded | BrokeVisited string | Threw js_error

text \<open>
  The loop \<open>while (hasMorePages && !this.stopRequested)\<close>, with a bound on the number of
  rounds: \<open>None\<close> when the bound does not suffice. A round with no product links sets
  \<open>hasMorePages\<close> to false and goes back to the test.
\<close>

fun crawlPages ::
  "nat \<Rightarrow> crawl_env \<Rightarrow> category \<Rightarrow> nat \<Rightarrow> bool \<Rightarrow> crawler \<Rightarrow> (loop_exit \<times> crawler) option" where
  "crawlPages 0 env cat pageNum hasMorePages c =
     (if hasMorePages \<and> \<not> stopRequested c then None else Some (LoopEnded, c))"
| "crawlPages (Suc fuel) env cat pageNum hasMorePages c =
     (if hasMorePages \<and> \<not> stopRequested c then
        (case getPaginatedUrl env (cat_url cat) pageNum of
           Inl e \<Rightarrow> Some (Threw e, c)
         | Inr pageUrl \<Rightarrow>
             if pageUrl \<in> processedUrls c then Some (BrokeVisited pageUrl, c)
             else
               (let c1 = c\<lparr>processedUrls := insert pageUrl (processedUrls c),
                            pagesLoaded := pagesLoaded c @ [pageUrl]\<rparr>
                in case loadPage env pageUrl of
                     Inl e \<Rightarrow> Some (Threw e, c1)
                   | Inr pg \<Rightarrow>
                       (let c2 = c1\<lparr>stopRequested :=
                                       (stopRequested c1 \<or> stopDuringPage env pageUrl)\<rparr>
                        in if productUrls pg = [] then crawlPages fuel env cat pageNum False c2
                           else
                             (let c3 = processProducts env (productUrls pg) c2
                              in case hasNextPage env pg of
                                   Inl e \<Rightarrow> Some (Threw e, c3)
                                 | Inr nxt \<Rightarrow> crawlPages fuel env cat (pageNum + 1) nxt c3))))
      else Some (LoopEnded, c))"

definition crawlCategory ::
  "nat \<Rightarrow> crawl_env \<Rightarrow> category \<Rightarrow> crawler \<Rightarrow> (loop_exit \<times> crawler) option" where
  "crawlCategory fuel env cat c =
     (case newPage_error env (cat_url cat) of
        Some e \<Rightarrow> Some (Threw e, c)
      | None \<Rightarrow> crawlPages fuel env cat 1 True c)"

section \<open>Crawler module: the job\<close>

text \<open>What follows a category in the loop of \<open>startCrawl\<close>: the count or the \<open>catch\<close>.\<close>

definition after_category :: "crawl_env \<Rightarrow> category \<Rightarrow> loop_exit \<Rightarrow> crawler \<Rightarrow> crawler" where
  "after_category env cat ex c =
     (let c1 = (case ex of
                  Threw e \<Rightarrow> log_error env (message e) c
                | _ \<Rightarrow>
                    c\<lparr>jobs := incrementJobCounter (jobs c) (jobId c) ProcessedCategories 1,
                      stats := (stats c)\<lparr>stats_categories := stats_categories (stats c) + 1\<rparr>\<rparr>)
      in c1\<lparr>stopRequested := (stopRequested c1 \<or> stopAfterCategory env (cat_url cat))\<rparr>)"

fun crawlCategories :: "nat \<Rightarrow> crawl_env \<Rightarrow> category list \<Rightarrow> crawler \<Rightarrow> crawler option" where
  "crawlCategories fuel env [] c = Some c"
| "crawlCategories fuel env (cat # rest) c =
     (if stopRequested c then Some c
      else case crawlCategory fuel env cat c of
             None \<Rightarrow> None
           | Some (ex, c1) \<Rightarrow> crawlCategories fuel env rest (after_category env cat ex c1))"

text \<open>The outer \<open>catch\<close> of \<open>startCrawl\<close>: the job fails and the error is thrown again.\<close>

definition fatal :: "crawl_env \<Rightarrow> js_error \<Rightarrow> crawler \<Rightarrow> (js_error + crawl_stats) \<times> crawler" where
  "fatal env e c =
     (Inl e,
      c\<lparr>jobs := appendJobError
                  (updateJobStatus (jobs c) (jobId c) ''failed'' (clock env (clock_reads c)) [])
                  (jobId c) (clock env (clock_reads c + 1)) (message e),
        clock_reads := clock_reads c + 2,
        running := False\<rparr>)"

text \<open>
  \<open>startCrawl(homepageUrl, jobId)\<close>: the thrown error or the final \<open>stats\<close>, and the crawler
  afterwards; \<open>None\<close> when some category needs more rounds than the bound.
\<close>

definition startCrawl ::
  "nat \<Rightarrow> crawl_env \<Rightarrow> string \<Rightarrow> string \<Rightarrow> crawler
     \<Rightarrow> ((js_error + crawl_stats) \<times> crawler) option" where
  "startCrawl fuel env homepageUrl jid c0 =
     (let c = c0\<lparr>jobId := jid, running := True, stopRequested := False, processedUrls := {},
                  discoveredProducts := {},
                  stats := \<lparr>stats_categories = 0, stats_products = 0, stats_images = 0,
                            stats_barcodes = 0, stats_errors = 0\<rparr>\<rparr>
      in case initBrowser_error env of
           Some e \<Rightarrow> Some (fatal env e c)
         | None \<Rightarrow>
             (case discoverCategories env homepageUrl of
                Inl e \<Rightarrow> Some (fatal env e (c\<lparr>stopRequested := stopDuringDiscovery env\<rparr>))
              | Inr cats \<Rightarrow>
                  (let c1 = c\<lparr>stopRequested := stopDuringDiscovery env,
                               jobs := updateJobStatus (jobs c) jid ''running''
                                         (clock env (clock_reads c))
                                         [(TotalCategories, int (length cats))],
                               clock_reads := clock_reads c + 1\<rparr>
                   in case crawlCategories fuel env cats c1 of
                        None \<Rightarrow> None
                      | Some c2 \<Rightarrow>
                          (let c3 = c2\<lparr>jobs := updateJobStatus (jobs c2) jid
                                        (if stopRequested c2 then ''stopped'' else ''completed'')
                                        (clock env (clock_reads c2))
                                        [(TotalProducts, int (stats_products (stats c2))),
                                         (ProcessedProducts, int (stats_products (stats c2)))],
                                       clock_reads := clock_reads c2 + 1\<rparr>
                           in Some (Inr (stats c3), c3\<lparr>running := False\<rparr>)))))"

section \<open>Steps of the traversal\<close>

text \<open>
  One product of the loop in \<open>crawlCategory\<close>, once the loop has decided to visit it: the
  hand-off to \<open>crawlProduct\<close>, the count or the \<open>catch\<close>, and the delay.
\<close>

definition product_step :: "crawl_env \<Rightarrow> string \<Rightarrow> crawler \<Rightarrow> crawler" where
  "product_step env productUrl c =
     (let c1 = c\<lparr>discoveredProducts := insert productUrl (discoveredProducts c),
                  handedOff := handedOff c @ [productUrl]\<rparr>;
          c2 = (case crawlProduct env productUrl of
                  None \<Rightarrow>
                    c1\<lparr>stats := (stats c1)\<lparr>stats_products := stats_products (stats c1) + 1\<rparr>,
                       jobs := incrementJobCounter (jobs c1) (jobId c1) ProcessedProducts 1\<rparr>
                | Some e \<Rightarrow> log_error env (productUrl @ '': '' @ message e) c1)
      in c2\<lparr>stopRequested := (stopRequested c2 \<or> stopDuringProduct env productUrl)\<rparr>)"

text \<open>The crawler after a listing page has been marked as visited and loaded.\<close>

definition page_loaded :: "crawl_env \<Rightarrow> string \<Rightarrow> crawler \<Rightarrow> crawler" where
  "page_loaded env u c =
     c\<lparr>processedUrls := insert u (processedUrls c), pagesLoaded := pagesLoaded c @ [u],
       stopRequested := (stopRequested c \<or> stopDuringPage env u)\<rparr>"




text \<open>The job of a crawler, as its own table has it.\<close>

definition current_job :: "crawler \<Rightarrow> crawl_job option" where
  "current_job c = jobs c (jobId c)"

text \<open>The traversal of a category came back without throwing.\<close>

fun returned :: "loop_exit \<Rightarrow> bool" where
  "returned (Threw e) = False"
| "returned _ = True"

text \<open>What the job loop can change in the job's row: status, error count, category count.\<close>

definition job_counts :: "crawl_job \<Rightarrow> string \<times> int \<times> int" where
  "job_counts j = (status j, errors j, processed_categories j)"

section \<open>Concrete inputs\<close>

text \<open>A job row as \<open>createJob\<close> leaves it.\<close>

definition demo_job :: crawl_job where
  "demo_job = \<lparr>homepage_url = ''https://shop.example'', status = ''running'', finished_at = None,
     total_categories = 0, processed_categories = 0, total_products = 0, processed_products = 0,
     errors = 0, error_log = None\<rparr>"

text \<open>
  A product page whose heading reads Milk, whose JSON-LD block is a Product with an empty
  name, and which loaded no JSON response.
\<close>

definition page_dom :: dom_data where
  "page_dom = \<lparr>dom_name = JStr ''Milk'', dom_brand = JNull, dom_price = JStr ''$ 2.49'',
     dom_description = JNull, dom_sku = JUndefined, dom_images = JArr [],
     dom_breadcrumb = JStr ''''\<rparr>"

definition page_structured :: jsval where
  "page_structured = JObj [(''@type'', JStr ''Product''), (''name'', JStr ''''),
     (''brand'', JObj [(''name'', JStr ''Acme'')])]"

text \<open>The JSON-LD of a product page that declares its SKU as a number.\<close>

definition numeric_sku_structured :: jsval where
  "numeric_sku_structured = JObj [(''@type'', JStr ''Product''), (''name'', JStr ''Oat flakes''),
     (''sku'', JNum 12345)]"

definition page_env :: extract_env where
  "page_env = \<lparr>sha1_hex = (\<lambda>u. ''da39a3ee5e6b4b0d3255bfef95601890afd80709''),
     price_match = (\<lambda>s. if s = ''$ 2.49'' then Some (Some ''$'', 2.49) else None),
     scrape_now = ''2024-01-01T00:00:00.000Z''\<rparr>"

text \<open>
  A shop with three product images. The decoder reads an EAN-13 symbol in the grayscale
  variant of the first two and nothing in the third. The OCR texts are the weight line of
  each of the first two labels and the digits printed on the third; the field parser finds
  the net weight in the former and a potential barcode in the latter.
\<close>

definition shop_images :: image_env where
  "shop_images =
     \<lparr>fetch_image = (\<lambda>u. if u = ''https://shop.example/img/a.jpg'' then Inr (Some ''bytes-a'')
                          else if u = ''https://shop.example/img/b.jpg'' then Inr (Some ''bytes-b'')
                          else if u = ''https://shop.example/img/c.jpg'' then Inr (Some ''bytes-c'')
                          else Inr None),
      variants = (\<lambda>b. [b @ ''#gray'', b @ ''#contrast'', b @ ''#inverted'', b @ ''#large'',
                        b @ ''#binary'']),
      zxing_read = (\<lambda>v. if v = ''bytes-a#gray'' \<or> v = ''bytes-b#gray''
                         then [(''4006381333931'', ''EAN-13'')] else []),
      ocr_engine = (\<lambda>b. if b = ''bytes-a'' then \<lparr>ocr_text = ''Net Weight: 100g'', ocr_confidence = 91\<rparr>
                         else if b = ''bytes-b'' then \<lparr>ocr_text = ''Net Weight: 200g'', ocr_confidence = 88\<rparr>
                         else if b = ''bytes-c'' then \<lparr>ocr_text = ''4006381333931'', ocr_confidence = 80\<rparr>
                         else \<lparr>ocr_text = [], ocr_confidence = 0\<rparr>),
      parseOCRFields = (\<lambda>t. if t = ''Net Weight: 100g'' then [(''net_weight'', FStr ''100g'')]
                             else if t = ''Net Weight: 200g'' then [(''net_weight'', FStr ''200g'')]
                             else if t = ''4006381333931''
                             then [(''potential_barcode'', FStr ''4006381333931'')]
                             else []),
      save_jpeg = (\<lambda>b p. None),
      path_join = (\<lambda>a b. a @ ''/'' @ b),
      enableBarcode = True,
      enableOCR = True,
      imageDir = ''./data/images'',
      image_now = ''2024-01-01T00:00:00.000Z''\<rparr>"

definition shop_product :: product_row where
  "shop_product =
     \<lparr>product_id = ''SKU1'', url = ''https://shop.example/p/1'', name = Some ''Oat flakes'',
      brand = None, category = Some ''Cereals'', variant = None, price = Some 2.49,
      currency = Some ''USD'', description = None, ingredients = None, nutrition = None,
      manufacturer = None, origin = None, availability = None,
      scrape_date = Some ''2024-01-01T00:00:00.000Z'', source_site = Some ''https://shop.example'',
      merged_ocr_text = None, ocr_fields_json = None\<rparr>"

definition shop_state :: image_state where
  "shop_state = \<lparr>products = [shop_product], image_rows = [], images_count = 0,
     barcodes_count = 0\<rparr>"

definition no_results :: ocr_results where
  "no_results = \<lparr>res_images = [], merged_text = [], parsed_fields = [], tags = []\<rparr>"

text \<open>
  A shop with three categories in its menu. The first lists five products on page 1, shows
  a link with \<open>rel="next"\<close>, and lists nothing on page 2. Loading the second category fails.
  The third lists two products on page 1, shows a next control in its pagination, and lists
  nothing on page 2. Every product visit succeeds and nobody asks to stop. Three more
  categories are not in the menu: one with a single page of one product and no next
  control at all, one for which the browser opens no page, and one whose URL is not
  absolute, so that the URL class rejects it.
\<close>

definition dairy :: category where
  "dairy = \<lparr>cat_url = ''https://shop.example/c/dairy'', cat_name = ''Dairy''\<rparr>"

definition broken :: category where
  "broken = \<lparr>cat_url = ''https://shop.example/c/broken'', cat_name = ''Broken''\<rparr>"

definition bakery :: category where
  "bakery = \<lparr>cat_url = ''https://shop.example/c/bakery'', cat_name = ''Bakery''\<rparr>"




definition dairy_links :: "string list" where
  "dairy_links = [''https://shop.example/p/1'', ''https://shop.example/p/2'',
     ''https://shop.example/p/3'', ''https://shop.example/p/4'', ''https://shop.example/p/5'']"

definition dairy_listing :: listing_page where
  "dairy_listing = \<lparr>productUrls = dairy_links, nextControls = [RelNext \<mapsto> False]\<rparr>"

definition empty_listing :: listing_page where
  "empty_listing = \<lparr>productUrls = [], nextControls = (\<lambda>selector. None)\<rparr>"

definition bakery_listing :: listing_page where
  "bakery_listing =
     \<lparr>productUrls = [''https://shop.example/p/6'', ''https://shop.example/p/7''],
      nextControls = [PaginationNext \<mapsto> False]\<rparr>"

definition spices_listing :: listing_page where
  "spices_listing =
     \<lparr>productUrls = [''https://shop.example/p/8''], nextControls = (\<lambda>selector. None)\<rparr>"

definition invalid_selector :: js_error where
  "invalid_selector = Error ''page.evaluate: SyntaxError: not a valid selector''"

definition shop_crawl :: crawl_env where
  "shop_crawl =
     \<lparr>newPage_error = (\<lambda>u. if u = ''https://shop.example/c/closed''
                             then Some (Error ''Target page, context or browser has been closed'')
                             else None),
      setPageParam = (\<lambda>u n. if starts_with u ''https://''
                             then Inr (u @ ''?page='' @ decimal n)
                             else Inl (TypeError ''Invalid URL'')),
      loadPage = (\<lambda>u.
        if u = ''https://shop.example/c/dairy'' then Inr dairy_listing
        else if u = ''https://shop.example/c/dairy?page=2'' then Inr empty_listing
        else if u = ''https://shop.example/c/bakery'' then Inr bakery_listing
        else if u = ''https://shop.example/c/bakery?page=2'' then Inr empty_listing
        else if u = ''https://shop.example/c/spices'' then Inr spices_listing
        else Inl (Error ''net::ERR_CONNECTION_RESET'')),
      crawlProduct = (\<lambda>u. None),
      stopDuringPage = (\<lambda>u. False),
      stopDuringProduct = (\<lambda>u. False),
      stopAfterCategory = (\<lambda>u. False),
      clock = (\<lambda>n. ''T'' @ decimal n),
      initBrowser_error = None,
      discoverCategories = (\<lambda>h. Inr [dairy, broken, bakery]),
      stopDuringDiscovery = False,
      selector_error = (\<lambda>selector. invalid_selector)\<rparr>"

definition fresh_crawler :: crawler where
  "fresh_crawler =
     \<lparr>jobs = [''job-1'' \<mapsto> demo_job], jobId = ''job-1'', running = True, stopRequested = False,
      processedUrls = {}, discoveredProducts = {},
      stats = \<lparr>stats_categories = 0, stats_products = 0, stats_images = 0, stats_barcodes = 0,
               stats_errors = 0\<rparr>,
      clock_reads = 0, pagesLoaded = [], handedOff = []\<rparr>"




definition after_failed_load :: crawler where
  "after_failed_load =
     fresh_crawler\<lparr>processedUrls := {''https://shop.example/c/broken''},
                    pagesLoaded := [''https://shop.example/c/broken'']\<rparr>"


definition flaky_shop :: crawl_env where
  "flaky_shop =
     shop_crawl\<lparr>crawlProduct := (\<lambda>u. if u = ''https://shop.example/p/2''
                                     then Some (Error ''Timeout 30000ms exceeded'') else None)\<rparr>"

text \<open>
  The crawler on its way through the three categories: as the traversal of each category
  leaves it, and as the job loop leaves it after the dairy and the broken category.
\<close>

definition dairy_done :: crawler where
  "dairy_done = snd (the (crawlCategory 2 shop_crawl dairy fresh_crawler))"

definition after_dairy :: crawler where
  "after_dairy = after_category shop_crawl dairy LoopEnded dairy_done"

definition broken_done :: crawler where
  "broken_done = snd (the (crawlCategory 2 shop_crawl broken after_dairy))"

definition after_broken :: crawler where
  "after_broken =
     after_category shop_crawl broken (Threw (Error ''net::ERR_CONNECTION_RESET'')) broken_done"

definition bakery_done :: crawler where
  "bakery_done = snd (the (crawlCategory 2 shop_crawl bakery after_broken))"

section \<open>Properties of the EAN-13 check digit\<close>

lemma ean13_loop_digits:
  "list_all isDigit cs \<Longrightarrow>
   ean13_loop i cs (Num a) =
     Num (a + (\<Sum>k\<leftarrow>[0..<length cs].
                  (if (i + k) mod 2 = 0 then 1 else 3) * (int (of_char (cs ! k)) - 48)))"
proof (induction cs arbitrary: i a)
  case Nil
  then show ?case by simp
next
  case (Cons c cs)
  have shift: "[0..<length (c # cs)] = 0 # map Suc [0..<length cs]"
    by (simp add: upt_conv_Cons map_Suc_upt del: upt_Suc)
  have dig: "isDigit c" and rest: "list_all isDigit cs"
    using Cons.prems by simp_all
  show ?case
    unfolding shift
    using Cons.IH [OF rest, of "i + 1"] dig
    by (simp add: parseInt_char_def o_def algebra_simps del: upt_Suc)
qed

lemma js_rem_nonneg: "0 \<le> a \<Longrightarrow> 0 < b \<Longrightarrow> js_rem (Num a) (Num b) = Num (a mod b)"
  by (simp add: sgn_if)

lemma spec_sum_reindex:
  "spec_ean13_weighted_sum (digit_values cs) =
     (\<Sum>k\<leftarrow>[0..<length cs]. (if (0 + k) mod 2 = 0 then 1 else 3) * (int (of_char (cs ! k)) - 48))"
proof -
  have "[1..<length cs + 1] = map Suc [0..<length cs]"
    by (simp add: map_Suc_upt)
  then have "spec_ean13_weighted_sum (digit_values cs) =
      (\<Sum>k\<leftarrow>[0..<length cs]. (if odd (Suc k) then 1 else 3) * (digit_values cs ! k))"
    by (simp add: spec_ean13_weighted_sum_def digit_values_def o_def)
  also have "\<dots> = (\<Sum>k\<leftarrow>[0..<length cs]. (if (0 + k) mod 2 = 0 then 1 else 3) * (int (of_char (cs ! k)) - 48))"
  proof (rule arg_cong [where f = sum_list], rule map_cong)
    fix k assume "k \<in> set [0..<length cs]"
    then have k: "k < length cs" by simp
    have par: "odd (Suc k) = ((0 + k) mod 2 = 0)" by presburger
    show "(if odd (Suc k) then 1 else 3) * (digit_values cs ! k)
        = (if (0 + k) mod 2 = 0 then 1 else 3) * (int (of_char (cs ! k)) - 48)"
      unfolding par using k by (simp add: digit_values_def)
  qed simp
  finally show ?thesis .
qed

lemma weighted_sum_nonneg:
  "list_all isDigit cs \<Longrightarrow> 0 \<le> spec_ean13_weighted_sum (digit_values cs)"
  unfolding spec_sum_reindex
  by (rule sum_list_nonneg) (auto simp: list_all_iff isDigit_def)

lemma calculateEAN13CheckDigit_standard:
  assumes "length cs = 12" and "list_all isDigit cs"
  shows "calculateEAN13CheckDigit cs = Num (spec_ean13_check_digit (digit_values cs))"
proof -
  let ?s = "spec_ean13_weighted_sum (digit_values cs)"
  have loop: "ean13_loop 0 cs (Num 0) = Num ?s"
    using ean13_loop_digits [OF assms(2), of 0 0] by (simp add: spec_sum_reindex)
  have nn: "0 \<le> ?s" using assms(2) by (rule weighted_sum_nonneg)
  have r1: "js_rem (Num ?s) (Num 10) = Num (?s mod 10)"
    using nn by (simp add: js_rem_nonneg del: js_rem.simps)
  have "0 \<le> 10 - ?s mod 10" by presburger
  then have r2: "js_rem (Num (10 - ?s mod 10)) (Num 10) = Num ((10 - ?s mod 10) mod 10)"
    by (simp add: js_rem_nonneg del: js_rem.simps)
  show ?thesis
    using assms(1)
    by (simp only: calculateEAN13CheckDigit_def loop r1 r2 spec_ean13_check_digit_def js_sub.simps)
      simp
qed

text \<open>
  C9. \<open>calculateEAN13CheckDigit\<close> on the twelve digits 400638133393 returns 1, which is the
  digit the standard EAN-13 rule prescribes for them, and lies in 0..9.
\<close>

theorem ean13_check_digit_400638133393:
  "calculateEAN13CheckDigit ''400638133393'' = Num 1
   \<and> spec_ean13_check_digit (digit_values ''400638133393'') = 1
   \<and> calculateEAN13CheckDigit ''400638133393''
       = Num (spec_ean13_check_digit (digit_values ''400638133393''))"
  by (simp add: calculateEAN13CheckDigit_def parseInt_char_def isDigit_def
      spec_ean13_check_digit_def spec_ean13_weighted_sum_def digit_values_def upt_rec)

section \<open>Properties of the bounded error log\<close>

lemma slice_last_length: "length (slice_last n xs) \<le> n"
  by (simp add: slice_last_def)

lemma slice_last_append: "slice_last n (slice_last n xs @ ys) = slice_last n (xs @ ys)"
  by (cases "length xs \<le> n") (auto simp: slice_last_def add.commute)

lemma slice_last_last: "0 < n \<Longrightarrow> last (slice_last n (xs @ [x])) = x"
  by (simp add: slice_last_def)

lemma appendJobError_existing:
  "tbl jid = Some job \<Longrightarrow>
   appendJobError tbl jid now err jid =
     Some (job\<lparr>error_log := Some (slice_last 100 (stored_log job @ [\<lparr>timestamp = now, error = err\<rparr>])),
               errors := errors job + 1\<rparr>)"
  by (simp add: appendJobError_def stored_log_def Let_def split: option.splits)

lemma appendJobErrors_existing:
  "tbl jid = Some job \<Longrightarrow>
   \<exists>job'. appendJobErrors tbl jid es jid = Some job'
     \<and> errors job' = errors job + int (length es)
     \<and> stored_log job' = (if es = [] then stored_log job
                            else slice_last 100 (stored_log job @ entries_of es))"
proof (induction es arbitrary: tbl job)
  case Nil
  then show ?case by simp
next
  case (Cons e es)
  obtain now err where e: "e = (now, err)" by (cases e)
  let ?job1 = "job\<lparr>error_log := Some (slice_last 100 (stored_log job @ [\<lparr>timestamp = now, error = err\<rparr>])),
               errors := errors job + 1\<rparr>"
  have step: "appendJobError tbl jid now err jid = Some ?job1"
    using Cons.prems by (rule appendJobError_existing)
  from Cons.IH [of "appendJobError tbl jid now err" ?job1, OF step] obtain job' where
    j: "appendJobErrors (appendJobError tbl jid now err) jid es jid = Some job'"
    and c: "errors job' = errors ?job1 + int (length es)"
    and l: "stored_log job' = (if es = [] then stored_log ?job1
                            else slice_last 100 (stored_log ?job1 @ entries_of es))"
    by blast
  have l1: "stored_log ?job1 = slice_last 100 (stored_log job @ [\<lparr>timestamp = now, error = err\<rparr>])"
    by (simp add: stored_log_def)
  have "stored_log job' = slice_last 100 (stored_log job @ entries_of (e # es))"
    unfolding l l1 by (simp add: slice_last_append e entries_of_def)
  with j c show ?case by (simp add: e)
qed

text \<open>
  C8. For a job that has a row, after any sequence of appends \<open>es\<close> a further
  \<open>appendJobError\<close> stores exactly the last 100 entries of the old log followed by all
  appended entries (so at most 100, the oldest dropped first), its newest entry carries the
  call's timestamp and message, and the counter \<open>errors\<close> has grown by one per append.
\<close>

theorem appendJobError_bounded_log:
  assumes "tbl jid = Some job"
  shows "\<exists>before after.
           appendJobErrors tbl jid es jid = Some before
         \<and> appendJobError (appendJobErrors tbl jid es) jid now err jid = Some after
         \<and> errors before = errors job + int (length es)
         \<and> errors after = errors before + 1
         \<and> error_log after
             = Some (slice_last 100 (stored_log before @ [\<lparr>timestamp = now, error = err\<rparr>]))
         \<and> error_log after
             = Some (slice_last 100
                 (stored_log job @ entries_of es @ [\<lparr>timestamp = now, error = err\<rparr>]))
         \<and> length (stored_log after) \<le> 100
         \<and> last (stored_log after) = \<lparr>timestamp = now, error = err\<rparr>"
proof -
  let ?e = "\<lparr>timestamp = now, error = err\<rparr>"
  from appendJobErrors_existing [where tbl = tbl and jid = jid and job = job and es = es, OF assms] obtain before where
    b: "appendJobErrors tbl jid es jid = Some before"
    and c: "errors before = errors job + int (length es)"
    and l: "stored_log before = (if es = [] then stored_log job
                            else slice_last 100 (stored_log job @ entries_of es))"
    by blast
  let ?after = "before\<lparr>error_log := Some (slice_last 100 (stored_log before @ [?e])),
               errors := errors before + 1\<rparr>"
  have a: "appendJobError (appendJobErrors tbl jid es) jid now err jid = Some ?after"
    using appendJobError_existing [where tbl = "appendJobErrors tbl jid es" and jid = jid and job = before, OF b] .
  have whole: "slice_last 100 (stored_log before @ [?e])
      = slice_last 100 (stored_log job @ entries_of es @ [?e])"
  proof (cases "es = []")
    case True
    then show ?thesis using l by (simp add: entries_of_def)
  next
    case False
    then have "stored_log before = slice_last 100 (stored_log job @ entries_of es)"
      using l by simp
    then show ?thesis
      using slice_last_append [of 100 "stored_log job @ entries_of es" "[?e]"] by simp
  qed
  have sl: "stored_log ?after = slice_last 100 (stored_log before @ [?e])"
    by (simp add: stored_log_def)
  have len: "length (stored_log ?after) \<le> 100"
    unfolding sl by (rule slice_last_length)
  have lst: "last (stored_log ?after) = ?e"
    unfolding sl by (rule slice_last_last) simp
  have el: "error_log ?after = Some (slice_last 100 (stored_log before @ [?e]))"
    by simp
  have er: "errors ?after = errors before + 1"
    by simp
  show ?thesis
    using b a c er el whole len lst by (metis (no_types))
qed

theorem appendJobError_bounded_log_witness:
  "[''job-1'' \<mapsto> demo_job] ''job-1'' = Some demo_job
   \<and> (\<exists>before after.
           appendJobErrors [''job-1'' \<mapsto> demo_job] ''job-1'' [(''t1'', ''first'')] ''job-1'' = Some before
         \<and> appendJobError (appendJobErrors [''job-1'' \<mapsto> demo_job] ''job-1'' [(''t1'', ''first'')])
              ''job-1'' ''t2'' ''second'' ''job-1'' = Some after
         \<and> errors before = 1
         \<and> errors after = 2
         \<and> error_log after
             = Some [\<lparr>timestamp = ''t1'', error = ''first''\<rparr>, \<lparr>timestamp = ''t2'', error = ''second''\<rparr>])"
proof -
  have h: "[''job-1'' \<mapsto> demo_job] ''job-1'' = Some demo_job" by simp
  from appendJobError_bounded_log [where tbl = "[''job-1'' \<mapsto> demo_job]" and jid = "''job-1''"
      and job = demo_job and es = "[(''t1'', ''first'')]" and now = "''t2''" and err = "''second''", OF h]
  obtain before after where
    "appendJobErrors [''job-1'' \<mapsto> demo_job] ''job-1'' [(''t1'', ''first'')] ''job-1'' = Some before"
    "appendJobError (appendJobErrors [''job-1'' \<mapsto> demo_job] ''job-1'' [(''t1'', ''first'')])
              ''job-1'' ''t2'' ''second'' ''job-1'' = Some after"
    "errors before = errors demo_job + int (length [(''t1'', ''first'')])"
    "errors after = errors before + 1"
    "error_log after = Some (slice_last 100
                 (stored_log demo_job @ entries_of [(''t1'', ''first'')] @ [\<lparr>timestamp = ''t2'', error = ''second''\<rparr>]))"
    by blast
  then show ?thesis
    using h by (simp add: demo_job_def stored_log_def entries_of_def slice_last_def)
qed

section \<open>Properties of the product identity\<close>

lemma upper_char_code: "isLower c \<Longrightarrow> (of_char (upper_char c) :: nat) = of_char c - 32"
  by (cases c) (simp add: upper_char_def isLower_def of_bool_def split: if_splits)

lemma lower_char_code:
  "(65 \<le> (of_char c :: nat) \<and> (of_char c :: nat) \<le> 90) \<or> (192 \<le> (of_char c :: nat) \<and> (of_char c :: nat) \<le> 222 \<and> (of_char c :: nat) \<noteq> 215)
   \<Longrightarrow> (of_char (lower_char c) :: nat) = of_char c + 32"
  by (cases c) (simp add: lower_char_def Let_def of_bool_def split: if_splits)

lemma generateProductId_string:
  "s \<noteq> [] \<Longrightarrow> generateProductId h u (JStr s) = Inr (toUpperCase (take 12 (filter isAlnum s)))"
  by (simp add: generateProductId_def)

lemma generateProductId_falsy:
  "\<not> truthy sku \<Longrightarrow> generateProductId h u sku = Inr (toUpperCase (take 12 (h u)))"
  by (simp add: generateProductId_def)

text \<open>
  C3. A product whose JSON-LD declares the SKU as a number, \<open>"sku": 12345\<close>: the merged
  \<open>sku\<close> is that number, which is truthy and has no method \<open>replace\<close>, so \<open>generateProductId\<close>
  throws instead of returning the identity \<open>12345\<close>, and \<open>extractProductData\<close> throws with it.
  The same happens for a SKU that is the boolean \<open>true\<close>.
\<close>

theorem generateProductId_numeric_sku_throws:
  "generateProductId h u (JNum 12345) = Inl (TypeError ''sku.replace is not a function'')
   \<and> generateProductId h u (JBool True) = Inl (TypeError ''sku.replace is not a function'')
   \<and> lookup (merged_sources page_dom numeric_sku_structured JNull) ''sku'' = JNum 12345
   \<and> extractProductData page_env ''https://a.example/p/1'' ''Food'' ''a.example'' JNull
         numeric_sku_structured page_dom
       = Inl (TypeError ''sku.replace is not a function'')"
  by (simp add: generateProductId_def extractProductData_def parse_price_def merged_sources_def
      spread2_def dom_object_def overlay_intercepted_def page_dom_def numeric_sku_structured_def
      page_env_def lookup_def Let_def)

text \<open>
  Where the SKU is a string, the identity is as documented: a non-empty SKU gives the SKU
  stripped of every non-alphanumeric character, uppercased and cut to 12 characters,
  whatever the URL, so two URLs with one SKU share the identity; without a SKU the identity
  is the first 12 characters of the URL's SHA-1 hex digest, uppercased.
\<close>

theorem generateProductId_identity:
  "(s \<noteq> [] \<longrightarrow>
      generateProductId h u (JStr s) = Inr (spec_sku_identity s)
      \<and> generateProductId h u (JStr s) = generateProductId h u' (JStr s))
   \<and> (sku = JNull \<or> sku = JUndefined \<longrightarrow>
      generateProductId h u sku = Inr (toUpperCase (take 12 (h u))))"
  by (auto simp: generateProductId_string generateProductId_falsy spec_sku_identity_def
      toUpperCase_def take_map)

theorem generateProductId_identity_witness:
  "''sku-12 ab/34 cd.5678'' \<noteq> []
   \<and> generateProductId (\<lambda>x. ''da39a3ee5e6b4b0d3255bfef95601890afd80709'') ''https://a.example/p/1''
        (JStr ''sku-12 ab/34 cd.5678'') = Inr ''SKU12AB34CD5''
   \<and> generateProductId (\<lambda>x. ''da39a3ee5e6b4b0d3255bfef95601890afd80709'') ''https://a.example/p/1''
        (JStr ''sku-12 ab/34 cd.5678'')
      = generateProductId (\<lambda>x. ''da39a3ee5e6b4b0d3255bfef95601890afd80709'') ''https://b.example/p/2''
        (JStr ''sku-12 ab/34 cd.5678'')
   \<and> generateProductId (\<lambda>x. ''da39a3ee5e6b4b0d3255bfef95601890afd80709'') ''https://a.example/p/1''
        JNull = Inr ''DA39A3EE5E6B''"
  using generateProductId_identity
    [of "''sku-12 ab/34 cd.5678''" "\<lambda>u. ''da39a3ee5e6b4b0d3255bfef95601890afd80709''"
        "''https://a.example/p/1''" "''https://b.example/p/2''" JNull]
  by (simp add: generateProductId_def spec_sku_identity_def toUpperCase_def upper_char_def isAlnum_def isLower_def
      isUpper_def isDigit_def)

text \<open>
  C10. The empty string as SKU falls back to the URL hash; a non-empty SKU without any
  alphanumeric character gives the empty identity, so any two products that declare such
  SKUs get the same identity whatever their URLs.
\<close>

theorem generateProductId_empty_identity:
  "generateProductId h u (JStr []) = Inr (toUpperCase (take 12 (h u)))
   \<and> (s \<noteq> [] \<and> list_all (\<lambda>c. \<not> isAlnum c) s \<longrightarrow>
        generateProductId h u (JStr s) = Inr []
        \<and> (s' \<noteq> [] \<and> list_all (\<lambda>c. \<not> isAlnum c) s' \<longrightarrow>
             generateProductId h u (JStr s) = generateProductId h u' (JStr s')))"
proof -
  have none: "filter isAlnum t = []" if "list_all (\<lambda>c. \<not> isAlnum c) t" for t
    using that by (induction t) auto
  show ?thesis
    by (auto simp: generateProductId_string generateProductId_falsy none toUpperCase_def)
qed

theorem generateProductId_empty_identity_witness:
  "generateProductId (\<lambda>x. ''da39a3ee5e6b4b0d3255bfef95601890afd80709'') ''https://a.example/p/1'' (JStr [])
      = Inr ''DA39A3EE5E6B''
   \<and> ''---'' \<noteq> [] \<and> list_all (\<lambda>c. \<not> isAlnum c) ''---''
   \<and> generateProductId (\<lambda>x. ''da39a3ee5e6b4b0d3255bfef95601890afd80709'') ''https://a.example/p/1'' (JStr ''---'') = Inr []
   \<and> ''#/.'' \<noteq> [] \<and> list_all (\<lambda>c. \<not> isAlnum c) ''#/.''
   \<and> generateProductId (\<lambda>x. ''da39a3ee5e6b4b0d3255bfef95601890afd80709'') ''https://a.example/p/1'' (JStr ''---'')
      = generateProductId (\<lambda>x. ''da39a3ee5e6b4b0d3255bfef95601890afd80709'') ''https://b.example/p/2'' (JStr ''#/.'')"
  using generateProductId_empty_identity
    [of "\<lambda>u. ''da39a3ee5e6b4b0d3255bfef95601890afd80709''" "''https://a.example/p/1''" "''---''"
        "''#/.''" "''https://b.example/p/2''"]
  by (simp add: generateProductId_def toUpperCase_def upper_char_def isAlnum_def isLower_def isUpper_def isDigit_def)

text \<open>
  Under \<open>upsertProduct\<close> two products with one identity share a row: the second overwrites
  the columns of the first and the row keeps the first one's URL.
\<close>

lemma upsertProduct_same_identity:
  assumes "product_id p = product_id q"
  shows "\<exists>row. upsertProduct now [q] p = Inr [row] \<and> product_id row = product_id q
           \<and> url row = url q \<and> name row = text_or_null (name p)"
  using assms by (simp add: upsertProduct_def bound_product_def Let_def)

section \<open>Properties of the content classification\<close>

lemma starts_with_iff: "starts_with s p \<longleftrightarrow> (\<exists>post. s = p @ post)"
  by (induction s p rule: starts_with.induct) auto

lemma js_includes_iff: "js_includes s p \<longleftrightarrow> (\<exists>pre post. s = pre @ p @ post)"
proof (induction s)
  case Nil
  then show ?case by simp
next
  case (Cons c cs)
  show ?case
  proof
    assume "js_includes (c # cs) p"
    then consider "starts_with (c # cs) p" | "js_includes cs p" by auto
    then show "\<exists>pre post. c # cs = pre @ p @ post"
    proof cases
      case 1
      then obtain post where "c # cs = p @ post" by (auto simp: starts_with_iff)
      then have "c # cs = [] @ p @ post" by simp
      then show ?thesis by blast
    next
      case 2
      then obtain pre post where "cs = pre @ p @ post" using Cons.IH by blast
      then have "c # cs = (c # pre) @ p @ post" by simp
      then show ?thesis by blast
    qed
  next
    assume "\<exists>pre post. c # cs = pre @ p @ post"
    then obtain pre post where eq: "c # cs = pre @ p @ post" by blast
    show "js_includes (c # cs) p"
    proof (cases pre)
      case Nil
      then have "starts_with (c # cs) p" using eq by (auto simp: starts_with_iff)
      then show ?thesis by simp
    next
      case (Cons a pre')
      then have "cs = pre' @ p @ post" using eq by simp
      then have "js_includes cs p" using Cons.IH by blast
      then show ?thesis by simp
    qed
  qed
qed

lemma some_includes_iff: "some_includes ks (toLowerCase txt) \<longleftrightarrow> contains_keyword ks txt"
  by (simp add: some_includes_def contains_keyword_def list_ex_iff js_includes_iff)

lemma digits_8_14_here_iff:
  "digits_8_14_here s \<longleftrightarrow>
     (\<exists>run post. s = run @ post \<and> 8 \<le> length run \<and> length run \<le> 14 \<and> list_all isDigit run)"
proof
  assume h: "digits_8_14_here s"
  let ?run = "takeWhile isDigit (take 14 s)"
  have "s = ?run @ (dropWhile isDigit (take 14 s) @ drop 14 s)"
    by (simp flip: append_assoc)
  moreover have "8 \<le> length ?run" using h by (simp add: digits_8_14_here_def)
  moreover have "length ?run \<le> 14"
    using length_takeWhile_le [of isDigit "take 14 s"] by simp
  moreover have "list_all isDigit ?run"
    by (simp add: list_all_iff) (meson set_takeWhileD)
  ultimately show "\<exists>run post. s = run @ post \<and> 8 \<le> length run \<and> length run \<le> 14 \<and> list_all isDigit run"
    by blast
next
  assume "\<exists>run post. s = run @ post \<and> 8 \<le> length run \<and> length run \<le> 14 \<and> list_all isDigit run"
  then obtain run post where s: "s = run @ post" and lo: "8 \<le> length run"
    and hi: "length run \<le> 14" and d: "list_all isDigit run" by blast
  have "take 14 s = run @ take (14 - length run) post"
    using hi by (simp add: s)
  then have "takeWhile isDigit (take 14 s) = run @ takeWhile isDigit (take (14 - length run) post)"
    using d by (simp add: list_all_iff takeWhile_append2)
  then show "digits_8_14_here s"
    using lo by (simp add: digits_8_14_here_def)
qed

lemma test_digits_8_14_iff: "test_digits_8_14 s \<longleftrightarrow> contains_digit_run s"
proof (induction s)
  case Nil
  then show ?case by (auto simp: contains_digit_run_def)
next
  case (Cons c cs)
  show ?case
  proof
    assume "test_digits_8_14 (c # cs)"
    then consider "digits_8_14_here (c # cs)" | "test_digits_8_14 cs" by auto
    then show "contains_digit_run (c # cs)"
    proof cases
      case 1
      then obtain run post where "c # cs = [] @ run @ post" "8 \<le> length run"
        "length run \<le> 14" "list_all isDigit run"
        by (auto simp: digits_8_14_here_iff)
      then show ?thesis unfolding contains_digit_run_def by blast
    next
      case 2
      then obtain pre run post where "cs = pre @ run @ post" "8 \<le> length run"
        "length run \<le> 14" "list_all isDigit run"
        using Cons.IH by (auto simp: contains_digit_run_def)
      then have "c # cs = (c # pre) @ run @ post" "8 \<le> length run"
        "length run \<le> 14" "list_all isDigit run" by simp_all
      then show ?thesis unfolding contains_digit_run_def by blast
    qed
  next
    assume "contains_digit_run (c # cs)"
    then obtain pre run post where eq: "c # cs = pre @ run @ post" and r: "8 \<le> length run"
        "length run \<le> 14" "list_all isDigit run"
      by (auto simp: contains_digit_run_def)
    show "test_digits_8_14 (c # cs)"
    proof (cases pre)
      case Nil
      then have "digits_8_14_here (c # cs)"
        using eq r unfolding digits_8_14_here_iff by auto
      then show ?thesis by simp
    next
      case (Cons a pre')
      then have "cs = pre' @ run @ post" using eq by simp
      then have "contains_digit_run cs" using r unfolding contains_digit_run_def by blast
      then show ?thesis using Cons.IH by simp
    qed
  qed
qed

lemma barcode_loop_iff:
  "barcode_loop barcodePatterns txt (toLowerCase txt) \<longleftrightarrow> barcode_indicator txt"
  by (auto simp: barcodePatterns_def barcode_indicator_def test_digits_8_14_iff
      contains_keyword_def js_includes_iff)

text \<open>
  C4. \<open>classifyImageContent\<close> is the ordered rule list nutrition keywords, ingredient
  keywords, barcode indicator, front-label keywords, else \<open>other\<close>, the first matching rule
  deciding; its result is one of the five tags; and a text that contains both a nutrition
  keyword and an ingredient keyword is tagged \<open>nutrition\<close>.
\<close>

theorem classifyImageContent_first_match:
  "classifyImageContent txt =
     (if contains_keyword nutritionPatterns txt then ''nutrition''
      else if contains_keyword ingredientPatterns txt then ''ingredients''
      else if barcode_indicator txt then ''barcode''
      else if contains_keyword frontPatterns txt then ''front''
      else ''other'')
   \<and> classifyImageContent txt \<in> image_tags
   \<and> (contains_keyword nutritionPatterns txt \<and> contains_keyword ingredientPatterns txt
        \<longrightarrow> classifyImageContent txt = ''nutrition'')"
  by (simp add: classifyImageContent_def Let_def some_includes_iff barcode_loop_iff image_tags_def)

theorem classifyImageContent_first_match_witness:
  "contains_keyword nutritionPatterns ''Calories 120 INGREDIENTS: wheat flour''
   \<and> contains_keyword ingredientPatterns ''Calories 120 INGREDIENTS: wheat flour''
   \<and> classifyImageContent ''Calories 120 INGREDIENTS: wheat flour'' = ''nutrition''"
proof -
  have n: "contains_keyword nutritionPatterns ''Calories 120 INGREDIENTS: wheat flour''"
    unfolding some_includes_iff [symmetric]
    by (simp add: some_includes_def nutritionPatterns_def toLowerCase_def lower_char_def)
  have i: "contains_keyword ingredientPatterns ''Calories 120 INGREDIENTS: wheat flour''"
    unfolding some_includes_iff [symmetric]
    by (simp add: some_includes_def ingredientPatterns_def toLowerCase_def lower_char_def)
  show ?thesis
    using classifyImageContent_first_match [of "''Calories 120 INGREDIENTS: wheat flour''"] n i
    by simp
qed

text \<open>
  The keywords are searched as substrings: \<open>ean\<close> is found inside \<open>Ocean\<close>.
\<close>

lemma classifyImageContent_examples:
  "classifyImageContent ''Ocean breeze'' = ''barcode''"
  "classifyImageContent ''Net Weight: 100g'' = ''front''"
  "classifyImageContent ''4006381333931'' = ''barcode''"
  "classifyImageContent ''hello'' = ''other''"
  by (simp_all add: classifyImageContent_def some_includes_def nutritionPatterns_def
      ingredientPatterns_def barcodePatterns_def frontPatterns_def toLowerCase_def lower_char_def
      digits_8_14_here_def isDigit_def)

section \<open>Properties of the source fusion\<close>

lemma map_of_spread2: "map_of (spread2 a b) = map_of a ++ map_of b"
  by (simp add: spread2_def AList.merge_conv')

lemma lookup_spread2:
  "lookup (spread2 a b) k = (case map_of b k of Some v \<Rightarrow> v | None \<Rightarrow> lookup a k)"
  by (simp add: lookup_def map_of_spread2 map_add_def split: option.splits)

text \<open>
  C2, as the code has it. For every key the merged object holds the value of the highest
  source that has the key (intercepted response over structured data over DOM), whatever
  that value is; a source without the key leaves the lower source's value in place.
\<close>

theorem merged_sources_key_precedence:
  "lookup (merged_sources domData structuredData jsonData) k
     = key_fused domData structuredData jsonData k"
  by (simp add: merged_sources_def overlay_intercepted_def key_fused_def intercepted_source_def
      lookup_spread2 map_of_spread2 map_add_def lookup_def split: option.splits)

text \<open>
  C2, as stated, fails: an empty name in the structured data replaces the DOM's name, and
  the extracted record ends without a name.
\<close>

theorem merged_sources_counterexample:
  "lookup (merged_sources page_dom page_structured JNull) ''name'' = JStr ''''
   \<and> spec_fused page_dom page_structured JNull ''name'' = JStr ''Milk''
   \<and> lookup (merged_sources page_dom page_structured JNull) ''name''
       \<noteq> spec_fused page_dom page_structured JNull ''name''
   \<and> map_sum id pd_name
        (extractProductData page_env ''https://shop.example/p/1'' ''Dairy''
           ''https://shop.example'' JNull page_structured page_dom) = Inr JUndefined"
  by (simp add: merged_sources_def overlay_intercepted_def spec_fused_def intercepted_source_def
      page_dom_def page_structured_def page_env_def dom_object_def lookup_def spread2_def
      non_empty_def extractProductData_def parse_price_def generateProductId_def js_or_def
      Let_def)

section \<open>Properties of the barcode fallback and of the image loop\<close>

lemma ocr_confidence_lower: "ocr_barcode_confidence < decode_confidence"
  by (simp add: ocr_barcode_confidence_def decode_confidence_def)

text \<open>The OCR module exports the function; the barcode module, where the crawler looks, does not.\<close>

lemma extractBarcodeFromOCR_export:
  "''extractBarcodeFromOCR'' \<in> set ocr_module_exports"
  "''extractBarcodeFromOCR'' \<notin> set barcode_module_exports"
  by (simp_all add: ocr_module_exports_def barcode_module_exports_def)

lemma extractBarcodeFromOCR_priority:
  "extractBarcodeFromOCR txt =
     (case match_digit_run 13 False txt of Some m \<Rightarrow> Some m | None \<Rightarrow>
      (case match_digit_run 12 False txt of Some m \<Rightarrow> Some m | None \<Rightarrow>
       (case match_digit_run 8 False txt of Some m \<Rightarrow> Some m | None \<Rightarrow>
         match_digit_run 14 False txt)))"
  by (simp add: extractBarcodeFromOCR_def split: option.splits)

lemma match_digit_run_found:
  "match_digit_run n prevWord s = Some m \<Longrightarrow>
   \<exists>pre post. s = pre @ m @ post \<and> length m = n \<and> list_all isDigit m
     \<and> (if pre = [] then \<not> prevWord else \<not> isWordChar (last pre))
     \<and> (post = [] \<or> \<not> isWordChar (hd post))"
proof (induction s arbitrary: prevWord)
  case Nil
  then show ?case by simp
next
  case (Cons c cs)
  show ?case
  proof (cases "\<not> prevWord \<and> digit_run_here n (c # cs)")
    case True
    then have m: "m = take n (c # cs)" using Cons.prems by simp
    from True have run: "n \<le> length (c # cs)" "list_all isDigit (take n (c # cs))"
      and after: "(case drop n (c # cs) of [] \<Rightarrow> True | d # _ \<Rightarrow> \<not> isWordChar d)"
      by (simp_all add: digit_run_here_def)
    have 1: "c # cs = [] @ m @ drop n (c # cs)" by (simp add: m)
    have 2: "length m = n" using run(1) by (simp add: m)
    have 3: "list_all isDigit m" using run(2) by (simp add: m)
    have 4: "drop n (c # cs) = [] \<or> \<not> isWordChar (hd (drop n (c # cs)))"
      using after by (cases "drop n (c # cs)") simp_all
    have 5: "if ([]::string) = [] then \<not> prevWord else \<not> isWordChar (last [])"
      using True by simp
    show ?thesis
      by (rule exI [where x = "[]"], rule exI [where x = "drop n (c # cs)"])
        (intro conjI 1 2 3 4 5)
  next
    case False
    then have "match_digit_run n (isWordChar c) cs = Some m"
      using Cons.prems by (simp split: if_splits)
    from Cons.IH [OF this] obtain pre post where
      eq: "cs = pre @ m @ post" and len: "length m = n" and dig: "list_all isDigit m"
      and before: "if pre = [] then \<not> isWordChar c else \<not> isWordChar (last pre)"
      and after: "post = [] \<or> \<not> isWordChar (hd post)"
      by blast
    have 1: "c # cs = (c # pre) @ m @ post" by (simp add: eq)
    have 5: "if c # pre = [] then \<not> prevWord else \<not> isWordChar (last (c # pre))"
      using before by (simp split: if_splits)
    show ?thesis
      by (rule exI [where x = "c # pre"], rule exI [where x = post])
        (intro conjI 1 len dig after 5)
  qed
qed

lemma match_digit_run_standalone:
  "match_digit_run n False txt = Some m \<Longrightarrow> standalone_run n txt m"
  using match_digit_run_found [of n False "txt" m]
  by (auto simp: standalone_run_def split: if_splits)

lemma match_digit_run_finds:
  "s = pre @ run @ post \<Longrightarrow> length run = n \<Longrightarrow> 0 < n \<Longrightarrow> list_all isDigit run \<Longrightarrow>
   (if pre = [] then \<not> prevWord else \<not> isWordChar (last pre)) \<Longrightarrow>
   post = [] \<or> \<not> isWordChar (hd post) \<Longrightarrow>
   match_digit_run n prevWord s \<noteq> None"
proof (induction s arbitrary: prevWord pre)
  case Nil
  then show ?case by simp
next
  case (Cons c cs)
  show ?case
  proof (cases pre)
    case Nil
    have s: "c # cs = run @ post" using Cons.prems(1) Nil by simp
    have "digit_run_here n (c # cs)"
      using Cons.prems(2,4,6) unfolding s digit_run_here_def
      by (cases post) simp_all
    moreover have "\<not> prevWord" using Cons.prems(5) Nil by simp
    ultimately show ?thesis by simp
  next
    case (Cons a pre')
    then have cs: "cs = pre' @ run @ post" and a: "a = c" using Cons.prems(1) by simp_all
    have before: "if pre' = [] then \<not> isWordChar c else \<not> isWordChar (last pre')"
      using Cons.prems(5) Cons a by (simp split: if_splits)
    have "match_digit_run n (isWordChar c) cs \<noteq> None"
      using Cons.IH [OF cs Cons.prems(2,3,4) before Cons.prems(6)] .
    then show ?thesis by simp
  qed
qed

lemma extractBarcodeFromOCR_none_iff:
  "extractBarcodeFromOCR txt = None \<longleftrightarrow>
     (\<forall>n \<in> {13, 12, 8, 14}. \<forall>run. \<not> standalone_run n txt run)"
proof
  assume none: "extractBarcodeFromOCR txt = None"
  have no: "\<not> standalone_run n txt run" if "match_digit_run n False txt = None" "0 < n" for n run
  proof
    assume "standalone_run n txt run"
    then obtain pre post where "txt = pre @ run @ post" "length run = n" "list_all isDigit run"
      "pre = [] \<or> \<not> isWordChar (last pre)" "post = [] \<or> \<not> isWordChar (hd post)"
      by (auto simp: standalone_run_def)
    then have "match_digit_run n False txt \<noteq> None"
      using match_digit_run_finds [of "txt" pre run post n False] that(2) by auto
    then show False using that(1) by simp
  qed
  from none have "match_digit_run 13 False txt = None" "match_digit_run 12 False txt = None"
    "match_digit_run 8 False txt = None" "match_digit_run 14 False txt = None"
    by (simp_all add: extractBarcodeFromOCR_priority split: option.splits)
  then show "\<forall>n \<in> {13, 12, 8, 14}. \<forall>run. \<not> standalone_run n txt run"
    using no by simp
next
  assume h: "\<forall>n \<in> {13, 12, 8, 14}. \<forall>run. \<not> standalone_run n txt run"
  have "match_digit_run n False txt = None" if "n \<in> {13, 12, 8, 14}" for n
  proof (cases "match_digit_run n False txt")
    case None
    then show ?thesis .
  next
    case (Some m)
    then have "standalone_run n txt m" by (rule match_digit_run_standalone)
    then show ?thesis using h that by blast
  qed
  then show "extractBarcodeFromOCR txt = None"
    by (simp add: extractBarcodeFromOCR_priority)
qed

lemma extractBarcodeFromOCR_examples:
  "extractBarcodeFromOCR ''4006381333931'' = Some ''4006381333931''"
  "extractBarcodeFromOCR ''lot 12345678 ean 4006381333931.'' = Some ''4006381333931''"
  "extractBarcodeFromOCR ''ref12345678'' = None"
  by code_simp+

text \<open>
  Whatever else happens to an image with a non-empty OCR text, its parsed fields are laid
  over the accumulated ones: a key it defines takes its value.
\<close>

text \<open>An image of a product that has no row is refused by the database.\<close>

lemma addImage_unknown_product:
  "\<not> list_ex (\<lambda>r. product_id r = img_product_id img) productRows \<Longrightarrow>
   addImage productRows rows img = Inl (Error ''FOREIGN KEY constraint failed'')"
  by (simp add: addImage_def)

lemma addImage_result_fields:
  "ocrFields (snd (case x of Inl e \<Rightarrow> (Some e, lp2)
                   | Inr rows \<Rightarrow> (None, lp2\<lparr>images := rows, stat_images := n\<rparr>)))
     = ocrFields lp2"
  by (cases x) simp_all

lemma image_try_fields:
  assumes "enableOCR env" and "ocr_text (ocr_engine env buffer) \<noteq> []"
  shows "map_of (ocrFields (snd (image_try env productRows productId i imageUrl buffer lp))) k
           = (case map_of (parseOCRFields env (ocr_text (ocr_engine env buffer))) k of
                Some v \<Rightarrow> Some v
              | None \<Rightarrow> map_of (ocrFields lp) k)"
  using assms
  by (simp add: image_try_def Let_def AList.merge_conv' map_add_def addImage_result_fields
      split: option.splits)

text \<open>The OCR module's merge never replaces a truthy value.\<close>

lemma merge_first_seen_keeps:
  "map_of parsed k = Some old \<Longrightarrow> field_truthy old \<Longrightarrow>
   map_of (merge_first_seen parsed entries) k = Some old"
proof (induction entries arbitrary: parsed)
  case Nil
  then show ?case by simp
next
  case (Cons e entries)
  obtain k' v where e: "e = (k', v)" by (cases e)
  let ?p = "case map_of parsed k' of
          None \<Rightarrow> AList.update k' v parsed
        | Some old' \<Rightarrow> if field_truthy old' then parsed else AList.update k' v parsed"
  have "map_of ?p k = Some old"
    using Cons.prems by (auto simp: AList.update_conv' split: option.splits)
  from Cons.IH [OF this Cons.prems(2)] show ?case by (simp add: e)
qed

text \<open>
  C1. Two images of one product whose OCR texts give the net weights 100g and 200g: the
  crawler stores the second image's value, although the first image gave 100g and the OCR
  module's own merge keeps 100g.
\<close>

theorem processProductImages_last_seen_wins:
  "stored_field
     (processProductImages shop_images ''SKU1''
        [''https://shop.example/img/a.jpg'', ''https://shop.example/img/b.jpg''] shop_state)
     ''SKU1'' ''net_weight'' = Some (FStr ''200g'')
   \<and> map_of (parseOCRFields shop_images (ocr_text (ocr_engine shop_images ''bytes-a'')))
        ''net_weight'' = Some (FStr ''100g'')
   \<and> map_of (parsed_fields
               (ocr_processProductImages shop_images 0 [''bytes-a'', ''bytes-b''] no_results))
        ''net_weight'' = Some (FStr ''100g'')"
  by code_simp

text \<open>
  C5. An image whose decode fails in every variant and whose OCR text is a 13-digit number:
  the name \<open>extractBarcodeFromOCR\<close> is not bound in the crawler, the call throws, the
  per-image \<open>catch\<close> swallows the error, and no image row and no barcode is recorded,
  although the OCR module's function finds the digits.
\<close>

theorem image_try_barcode_fallback_throws:
  "crawler_extractBarcodeFromOCR = None
   \<and> detectBarcode shop_images ''bytes-c'' = None
   \<and> fst (image_try shop_images (products shop_state) ''SKU1'' 0
           ''https://shop.example/img/c.jpg'' ''bytes-c''
           \<lparr>images = [], stat_images = 0, stat_barcodes = 0, ocrTexts = [], ocrFields = []\<rparr>)
       = Some (TypeError ''extractBarcodeFromOCR is not a function'')
   \<and> map_sum id image_rows
        (processProductImages shop_images ''SKU1'' [''https://shop.example/img/c.jpg''] shop_state)
       = Inr []
   \<and> extractBarcodeFromOCR ''4006381333931'' = Some ''4006381333931''"
proof -
  have unbound: "crawler_extractBarcodeFromOCR = None"
    by (simp add: crawler_extractBarcodeFromOCR_def barcode_module_exports_def)
  have rest: "detectBarcode shop_images ''bytes-c'' = None
   \<and> fst (image_try shop_images (products shop_state) ''SKU1'' 0
           ''https://shop.example/img/c.jpg'' ''bytes-c''
           \<lparr>images = [], stat_images = 0, stat_barcodes = 0, ocrTexts = [], ocrFields = []\<rparr>)
       = Some (TypeError ''extractBarcodeFromOCR is not a function'')
   \<and> map_sum id image_rows
        (processProductImages shop_images ''SKU1'' [''https://shop.example/img/c.jpg''] shop_state)
       = Inr []
   \<and> extractBarcodeFromOCR ''4006381333931'' = Some ''4006381333931''"
    by code_simp
  show ?thesis using unbound rest by simp
qed

section \<open>Properties of the traversal\<close>

lemma set_column_status [simp]: "status (set_column k v j) = status j"
  by (cases k) simp_all

lemma set_column_error_log [simp]: "error_log (set_column k v j) = error_log j"
  by (cases k) simp_all

lemma appendJobError_other: "j \<noteq> jid \<Longrightarrow> appendJobError tbl jid now err j = tbl j"
  by (simp add: appendJobError_def Let_def split: option.splits)

lemma appendJobError_status:
  "map_option status (appendJobError tbl jid now err j) = map_option status (tbl j)"
  by (cases "j = jid") (auto simp: appendJobError_def Let_def split: option.splits)

lemma incrementJobCounter_status:
  "map_option status (incrementJobCounter tbl jid k n j) = map_option status (tbl j)"
  by (cases "j = jid") (auto simp: incrementJobCounter_def split: option.splits)

lemma log_error_fields [simp]:
  "jobId (log_error env msg c) = jobId c"
  "stopRequested (log_error env msg c) = stopRequested c"
  "processedUrls (log_error env msg c) = processedUrls c"
  "discoveredProducts (log_error env msg c) = discoveredProducts c"
  "pagesLoaded (log_error env msg c) = pagesLoaded c"
  "handedOff (log_error env msg c) = handedOff c"
  "stats_errors (stats (log_error env msg c)) = stats_errors (stats c) + 1"
  "stats_categories (stats (log_error env msg c)) = stats_categories (stats c)"
  "stats_products (stats (log_error env msg c)) = stats_products (stats c)"
  "jobs (log_error env msg c)
     = appendJobError (jobs c) (jobId c) (clock env (clock_reads c)) msg"
  by (simp_all add: log_error_def)

lemma processProducts_step:
  "processProducts env (u # rest) c =
     (if stopRequested c then c
      else if u \<in> discoveredProducts c then processProducts env rest c
      else processProducts env rest (product_step env u c))"
  by (simp add: product_step_def Let_def)

lemma product_step_fields [simp]:
  "jobId (product_step env u c) = jobId c"
  "processedUrls (product_step env u c) = processedUrls c"
  "pagesLoaded (product_step env u c) = pagesLoaded c"
  "handedOff (product_step env u c) = handedOff c @ [u]"
  "discoveredProducts (product_step env u c) = insert u (discoveredProducts c)"
  "stopRequested (product_step env u c) = (stopRequested c \<or> stopDuringProduct env u)"
  by (simp_all add: product_step_def Let_def split: option.splits)

lemma product_step_status:
  "map_option status (jobs (product_step env u c) j) = map_option status (jobs c j)"
  by (simp add: product_step_def Let_def appendJobError_status incrementJobCounter_status
      split: option.splits)

lemma processProducts_fields:
  "jobId (processProducts env us c) = jobId c
   \<and> processedUrls (processProducts env us c) = processedUrls c
   \<and> pagesLoaded (processProducts env us c) = pagesLoaded c
   \<and> map_option status (jobs (processProducts env us c) j) = map_option status (jobs c j)"
proof (induction us arbitrary: c)
  case Nil
  then show ?case by simp
next
  case (Cons u us)
  show ?case
    unfolding processProducts_step
    by (simp add: Cons.IH product_step_status)
qed



lemma crawlPages_no_more: "crawlPages fuel env cat n False c = Some (LoopEnded, c)"
  by (cases fuel) simp_all


lemma crawlPages_no_links:
  "\<not> stopRequested c \<Longrightarrow> getPaginatedUrl env (cat_url cat) n = Inr u \<Longrightarrow> u \<notin> processedUrls c \<Longrightarrow>
   loadPage env u = Inr pg \<Longrightarrow> productUrls pg = [] \<Longrightarrow>
   crawlPages (Suc fuel) env cat n True c = Some (LoopEnded, page_loaded env u c)"
  by (simp add: crawlPages_no_more page_loaded_def Let_def)

lemma crawlPages_links:
  "\<not> stopRequested c \<Longrightarrow> getPaginatedUrl env (cat_url cat) n = Inr u \<Longrightarrow> u \<notin> processedUrls c \<Longrightarrow>
   loadPage env u = Inr pg \<Longrightarrow> productUrls pg \<noteq> [] \<Longrightarrow> hasNextPage env pg = Inr nxt \<Longrightarrow>
   crawlPages (Suc fuel) env cat n True c
     = crawlPages fuel env cat (n + 1) nxt (processProducts env (productUrls pg) (page_loaded env u c))"
  by (simp add: page_loaded_def Let_def)





text \<open>
  The last two selectors of \<open>hasNextPage\<close> are not CSS, so the loop never comes to its end:
  on a page where none of the first three selectors finds a control that is not disabled,
  \<open>hasNextPage\<close> throws.
\<close>

lemma hasNextPage_true_or_throws:
  "hasNextPage env pg = Inr True \<or> hasNextPage env pg = Inl (selector_error env HasTextNext)"
  by (simp add: hasNextPage_def nextSelectors_def split: option.splits)

lemma hasNextPage_not_false: "hasNextPage env pg \<noteq> Inr False"
  using hasNextPage_true_or_throws [of env pg] by auto

lemma page_loaded_fields [simp]:
  "jobId (page_loaded env u c) = jobId c"
  "jobs (page_loaded env u c) = jobs c"
  "processedUrls (page_loaded env u c) = insert u (processedUrls c)"
  "pagesLoaded (page_loaded env u c) = pagesLoaded c @ [u]"
  "handedOff (page_loaded env u c) = handedOff c"
  "discoveredProducts (page_loaded env u c) = discoveredProducts c"
  "stopRequested (page_loaded env u c) = (stopRequested c \<or> stopDuringPage env u)"
  by (simp_all add: page_loaded_def)







section \<open>Properties of failure containment\<close>

lemma fold_set_column_status [simp]:
  "status (fold (\<lambda>(k, v) j. set_column k v j) kvs j) = status j"
  by (induction kvs arbitrary: j) (auto simp: split_def)

lemma updateJobStatus_existing:
  "tbl jid = Some job \<Longrightarrow>
   \<exists>job'. updateJobStatus tbl jid s now kvs jid = Some job' \<and> status job' = s"
  by (simp add: updateJobStatus_def Let_def)

lemma log_error_job:
  assumes "current_job c = Some job"
  shows "\<exists>job2. current_job (log_error env msg c) = Some job2
           \<and> errors job2 = errors job + 1
           \<and> status job2 = status job
           \<and> length (stored_log job2) \<le> 100
           \<and> last (stored_log job2) = \<lparr>timestamp = clock env (clock_reads c), error = msg\<rparr>"
proof -
  let ?e = "\<lparr>timestamp = clock env (clock_reads c), error = msg\<rparr>"
  let ?job2 = "job\<lparr>error_log := Some (slice_last 100 (stored_log job @ [?e])),
                    errors := errors job + 1\<rparr>"
  have j: "jobs c (jobId c) = Some job" using assms by (simp add: current_job_def)
  have "current_job (log_error env msg c) = Some ?job2"
    using appendJobError_existing [where tbl = "jobs c" and jid = "jobId c" and job = job, OF j]
    by (simp add: current_job_def)
  moreover have "stored_log ?job2 = slice_last 100 (stored_log job @ [?e])"
    by (simp add: stored_log_def)
  ultimately show ?thesis
    by (simp add: slice_last_length slice_last_last)
qed

lemma category_failure_contained:
  assumes thrown: "crawlCategory fuel env cat c = Some (Threw e, c1)"
    and ns: "\<not> stopRequested c"
    and job: "current_job c1 = Some job"
  shows "crawlCategories fuel env (cat # rest) c
           = crawlCategories fuel env rest (after_category env cat (Threw e) c1)
         \<and> (\<exists>job2. current_job (after_category env cat (Threw e) c1) = Some job2
               \<and> errors job2 = errors job + 1
               \<and> status job2 = status job
               \<and> length (stored_log job2) \<le> 100
               \<and> last (stored_log job2)
                   = \<lparr>timestamp = clock env (clock_reads c1), error = message e\<rparr>)
         \<and> stats_errors (stats (after_category env cat (Threw e) c1)) = stats_errors (stats c1) + 1
         \<and> stats_categories (stats (after_category env cat (Threw e) c1))
             = stats_categories (stats c1)"
proof -
  have cj: "current_job (after_category env cat (Threw e) c1)
      = current_job (log_error env (message e) c1)"
    by (simp add: after_category_def current_job_def)
  show ?thesis
    using thrown ns log_error_job [OF job, of env "message e"]
    by (simp add: cj) (simp add: after_category_def)
qed

lemma product_failure_contained:
  assumes fails: "crawlProduct env u = Some e"
    and ns: "\<not> stopRequested c"
    and new: "u \<notin> discoveredProducts c"
    and job: "current_job c = Some job"
  shows "processProducts env (u # rest) c = processProducts env rest (product_step env u c)
         \<and> handedOff (product_step env u c) = handedOff c @ [u]
         \<and> (\<exists>job2. current_job (product_step env u c) = Some job2
               \<and> errors job2 = errors job + 1
               \<and> status job2 = status job
               \<and> length (stored_log job2) \<le> 100
               \<and> last (stored_log job2)
                   = \<lparr>timestamp = clock env (clock_reads c), error = u @ '': '' @ message e\<rparr>)
         \<and> stats_errors (stats (product_step env u c)) = stats_errors (stats c) + 1
         \<and> stats_products (stats (product_step env u c)) = stats_products (stats c)"
proof -
  let ?c1 = "c\<lparr>discoveredProducts := insert u (discoveredProducts c),
                handedOff := handedOff c @ [u]\<rparr>"
  have job1: "current_job ?c1 = Some job" using job by (simp add: current_job_def)
  have ps: "product_step env u c
      = (log_error env (u @ '': '' @ message e) ?c1)
          \<lparr>stopRequested := (stopRequested (log_error env (u @ '': '' @ message e) ?c1)
                              \<or> stopDuringProduct env u)\<rparr>"
    using fails by (simp add: product_step_def Let_def)
  have cj: "current_job (product_step env u c)
      = current_job (log_error env (u @ '': '' @ message e) ?c1)"
    unfolding ps by (simp add: current_job_def)
  have st: "stats (product_step env u c) = stats (log_error env (u @ '': '' @ message e) ?c1)"
    unfolding ps by simp
  show ?thesis
    using ns new log_error_job [OF job1, of env "u @ '': '' @ message e"]
    by (simp add: processProducts_step cj st del: processProducts.simps)
qed

lemma crawlPages_job:
  "crawlPages fuel env cat n more' c = Some (ex, c') \<Longrightarrow>
   jobId c' = jobId c \<and> map_option status (jobs c' j) = map_option status (jobs c j)"
proof (induction fuel arbitrary: n more' c)
  case 0
  then show ?case by (auto split: if_splits)
next
  case (Suc fuel)
  show ?case
  proof (cases "more' \<and> \<not> stopRequested c")
    case False
    then show ?thesis using Suc.prems by auto
  next
    case True
    then have go: "more' = True" "\<not> stopRequested c" by simp_all
    show ?thesis
    proof (cases "getPaginatedUrl env (cat_url cat) n")
      case (Inl e)
      then show ?thesis using Suc.prems go by simp
    next
      case (Inr u)
      show ?thesis
      proof (cases "u \<in> processedUrls c")
        case True
        then show ?thesis using Suc.prems go Inr by simp
      next
        case False
        show ?thesis
        proof (cases "loadPage env u")
          case (Inl e)
          then have "c' = c\<lparr>processedUrls := insert u (processedUrls c),
                             pagesLoaded := pagesLoaded c @ [u]\<rparr>"
            using Suc.prems go Inr False by (simp add: Let_def)
          then show ?thesis by simp
        next
          case pg: (Inr pg)
          show ?thesis
          proof (cases "productUrls pg = []")
            case True
            have "crawlPages (Suc fuel) env cat n True c = Some (LoopEnded, page_loaded env u c)"
              using go(2) Inr False pg True by (rule crawlPages_no_links)
            then have "c' = page_loaded env u c" using Suc.prems go(1) by simp
            then show ?thesis by simp
          next
            case links: False
            let ?c3 = "processProducts env (productUrls pg) (page_loaded env u c)"
            have c3: "jobId ?c3 = jobId c"
              "map_option status (jobs ?c3 j) = map_option status (jobs c j)"
              by (simp_all add: processProducts_fields)
            show ?thesis
            proof (cases "hasNextPage env pg")
              case (Inl e)
              have "c' = ?c3"
                using Suc.prems go Inr False pg links Inl by (simp add: Let_def page_loaded_def)
              then show ?thesis using c3 by simp
            next
              case nxt: (Inr nxt)
              have "crawlPages (Suc fuel) env cat n True c = crawlPages fuel env cat (n + 1) nxt ?c3"
                using go(2) Inr False pg links nxt by (rule crawlPages_links)
              then have "crawlPages fuel env cat (n + 1) nxt ?c3 = Some (ex, c')"
                using Suc.prems go(1) by simp
              from Suc.IH [OF this] show ?thesis using c3 by simp
            qed
          qed
        qed
      qed
    qed
  qed
qed

lemma crawlCategory_job:
  "crawlCategory fuel env cat c = Some (ex, c') \<Longrightarrow>
   jobId c' = jobId c \<and> map_option status (jobs c' j) = map_option status (jobs c j)"
  by (cases "newPage_error env (cat_url cat)")
    (auto simp: crawlCategory_def dest: crawlPages_job [where j = j])

lemma after_category_job:
  "jobId (after_category env cat ex c) = jobId c
   \<and> map_option status (jobs (after_category env cat ex c) j) = map_option status (jobs c j)"
  by (cases ex)
    (simp_all add: after_category_def Let_def appendJobError_status incrementJobCounter_status)

lemma crawlCategories_job:
  "crawlCategories fuel env cats c = Some c' \<Longrightarrow>
   jobId c' = jobId c \<and> map_option status (jobs c' j) = map_option status (jobs c j)"
proof (induction cats arbitrary: c)
  case Nil
  then show ?case by simp
next
  case (Cons cat cats)
  show ?case
  proof (cases "stopRequested c")
    case True
    then show ?thesis using Cons.prems by simp
  next
    case False
    then obtain ex c1 where cc: "crawlCategory fuel env cat c = Some (ex, c1)"
      and rest: "crawlCategories fuel env cats (after_category env cat ex c1) = Some c'"
      using Cons.prems by (auto split: option.splits)
    from Cons.IH [OF rest] crawlCategory_job [OF cc, of j] after_category_job [of env cat ex c1 j]
    show ?thesis by simp
  qed
qed

lemma startCrawl_not_failed:
  assumes run: "startCrawl fuel env home jid c0 = Some (r, c')"
    and init: "initBrowser_error env = None"
    and disc: "discoverCategories env home = Inr cats"
    and job: "jobs c0 jid = Some job"
  shows "\<exists>s job'. r = Inr s \<and> jobs c' jid = Some job'
           \<and> (status job' = ''completed'' \<or> status job' = ''stopped'')"
proof -
  let ?c = "c0\<lparr>jobId := jid, running := True, stopRequested := False, processedUrls := {},
                  discoveredProducts := {},
                  stats := \<lparr>stats_categories = 0, stats_products = 0, stats_images = 0,
                            stats_barcodes = 0, stats_errors = 0\<rparr>\<rparr>"
  let ?c1 = "?c\<lparr>stopRequested := stopDuringDiscovery env,
                 jobs := updateJobStatus (jobs ?c) jid ''running'' (clock env (clock_reads ?c))
                           [(TotalCategories, int (length cats))],
                 clock_reads := clock_reads ?c + 1\<rparr>"
  from run init disc obtain c2 where
    cats: "crawlCategories fuel env cats ?c1 = Some c2"
    and r: "r = Inr (stats c2)"
    and c': "jobs c' = updateJobStatus (jobs c2) jid
               (if stopRequested c2 then ''stopped'' else ''completed'')
               (clock env (clock_reads c2))
               [(TotalProducts, int (stats_products (stats c2))),
                (ProcessedProducts, int (stats_products (stats c2)))]"
    by (auto simp: startCrawl_def Let_def split: option.splits)
  have "jobs ?c jid = Some job" using job by simp
  then obtain j1 where "jobs ?c1 jid = Some j1"
    using updateJobStatus_existing [of "jobs ?c" jid job "''running''"] by fastforce
  then have "map_option status (jobs c2 jid) \<noteq> None"
    using crawlCategories_job [OF cats, of jid] by auto
  then obtain j2 where j2: "jobs c2 jid = Some j2" by auto
  from updateJobStatus_existing [where tbl = "jobs c2" and jid = jid and job = j2, OF j2]
  obtain job' where
    "jobs c' jid = Some job'"
    "status job' = (if stopRequested c2 then ''stopped'' else ''completed'')"
    unfolding c' by blast
  then show ?thesis using r by auto
qed

text \<open>What a traversal without failing products leaves untouched.\<close>

lemma incrementJobCounter_products:
  assumes "\<And>v j. f (j\<lparr>processed_products := v\<rparr>) = f j"
  shows "map_option f (incrementJobCounter tbl jid ProcessedProducts n k) = map_option f (tbl k)"
  by (cases "k = jid") (auto simp: incrementJobCounter_def assms split: option.splits)

lemma product_step_quiet:
  assumes "crawlProduct env u = None" and "\<And>v j. f (j\<lparr>processed_products := v\<rparr>) = f j"
  shows "map_option f (jobs (product_step env u c) k) = map_option f (jobs c k)
         \<and> stats_errors (stats (product_step env u c)) = stats_errors (stats c)
         \<and> stats_categories (stats (product_step env u c)) = stats_categories (stats c)"
  using assms(1) incrementJobCounter_products [of f, OF assms(2)]
  by (simp add: product_step_def Let_def)

lemma processProducts_quiet:
  assumes "\<forall>u. crawlProduct env u = None" and "\<And>v j. f (j\<lparr>processed_products := v\<rparr>) = f j"
  shows "map_option f (jobs (processProducts env us c) k) = map_option f (jobs c k)
         \<and> stats_errors (stats (processProducts env us c)) = stats_errors (stats c)
         \<and> stats_categories (stats (processProducts env us c)) = stats_categories (stats c)"
proof (induction us arbitrary: c)
  case Nil
  then show ?case by simp
next
  case (Cons u us)
  have q: "crawlProduct env u = None" using assms(1) by simp
  show ?case
    unfolding processProducts_step
    using Cons.IH product_step_quiet [of env u f, OF q assms(2)]
    by simp
qed

lemma crawlPages_quiet:
  assumes quiet: "\<forall>u. crawlProduct env u = None"
    and f: "\<And>v j. f (j\<lparr>processed_products := v\<rparr>) = f j"
  shows "crawlPages fuel env cat n more' c = Some (ex, c') \<Longrightarrow>
         map_option f (jobs c' k) = map_option f (jobs c k)
         \<and> stats_errors (stats c') = stats_errors (stats c)
         \<and> stats_categories (stats c') = stats_categories (stats c)"
proof (induction fuel arbitrary: n more' c)
  case 0
  then show ?case by (auto split: if_splits)
next
  case (Suc fuel)
  show ?case
  proof (cases "more' \<and> \<not> stopRequested c")
    case False
    then show ?thesis using Suc.prems by auto
  next
    case True
    then have go: "more' = True" "\<not> stopRequested c" by simp_all
    show ?thesis
    proof (cases "getPaginatedUrl env (cat_url cat) n")
      case (Inl e)
      then show ?thesis using Suc.prems go by simp
    next
      case (Inr u)
      show ?thesis
      proof (cases "u \<in> processedUrls c")
        case True
        then show ?thesis using Suc.prems go Inr by simp
      next
        case False
        show ?thesis
        proof (cases "loadPage env u")
          case (Inl e)
          then have "c' = c\<lparr>processedUrls := insert u (processedUrls c),
                             pagesLoaded := pagesLoaded c @ [u]\<rparr>"
            using Suc.prems go Inr False by (simp add: Let_def)
          then show ?thesis by simp
        next
          case pg: (Inr pg)
          show ?thesis
          proof (cases "productUrls pg = []")
            case True
            have "crawlPages (Suc fuel) env cat n True c = Some (LoopEnded, page_loaded env u c)"
              using go(2) Inr False pg True by (rule crawlPages_no_links)
            then have "c' = page_loaded env u c" using Suc.prems go(1) by simp
            then show ?thesis by (simp add: page_loaded_def)
          next
            case links: False
            let ?c3 = "processProducts env (productUrls pg) (page_loaded env u c)"
            have c3: "map_option f (jobs ?c3 k) = map_option f (jobs c k)"
              "stats_errors (stats ?c3) = stats_errors (stats c)"
              "stats_categories (stats ?c3) = stats_categories (stats c)"
              using processProducts_quiet [of env f "productUrls pg" "page_loaded env u c" k,
                  OF quiet f]
              by (simp_all add: page_loaded_def)
            show ?thesis
            proof (cases "hasNextPage env pg")
              case (Inl e)
              have "c' = ?c3"
                using Suc.prems go Inr False pg links Inl by (simp add: Let_def page_loaded_def)
              then show ?thesis using c3 by simp
            next
              case nxt: (Inr nxt)
              have "crawlPages (Suc fuel) env cat n True c = crawlPages fuel env cat (n + 1) nxt ?c3"
                using go(2) Inr False pg links nxt by (rule crawlPages_links)
              then have "crawlPages fuel env cat (n + 1) nxt ?c3 = Some (ex, c')"
                using Suc.prems go(1) by simp
              from Suc.IH [OF this] show ?thesis using c3 by simp
            qed
          qed
        qed
      qed
    qed
  qed
qed

lemma crawlCategory_quiet:
  assumes quiet: "\<forall>u. crawlProduct env u = None"
    and f: "\<And>v j. f (j\<lparr>processed_products := v\<rparr>) = f j"
    and run: "crawlCategory fuel env cat c = Some (ex, c')"
  shows "jobId c' = jobId c
         \<and> map_option f (jobs c' k) = map_option f (jobs c k)
         \<and> stats_errors (stats c') = stats_errors (stats c)
         \<and> stats_categories (stats c') = stats_categories (stats c)"
proof (cases "newPage_error env (cat_url cat)")
  case None
  then have "crawlPages fuel env cat 1 True c = Some (ex, c')"
    using run by (simp add: crawlCategory_def)
  from crawlPages_quiet [of env f, OF quiet f this, of k] crawlPages_job [OF this, of k]
  show ?thesis by simp
next
  case (Some e)
  then have "c' = c" using run by (simp add: crawlCategory_def)
  then show ?thesis by simp
qed

lemma after_category_returned:
  assumes "returned ex" and "current_job c = Some job"
  shows "jobId (after_category env cat ex c) = jobId c
         \<and> map_option job_counts (current_job (after_category env cat ex c))
             = Some (status job, errors job, processed_categories job + 1)
         \<and> stats_categories (stats (after_category env cat ex c)) = stats_categories (stats c) + 1
         \<and> stats_errors (stats (after_category env cat ex c)) = stats_errors (stats c)"
  using assms
  by (cases ex)
    (simp_all add: after_category_def current_job_def incrementJobCounter_def job_counts_def)

lemma after_category_thrown:
  assumes "current_job c = Some job"
  shows "jobId (after_category env cat (Threw e) c) = jobId c
         \<and> map_option job_counts (current_job (after_category env cat (Threw e) c))
             = Some (status job, errors job + 1, processed_categories job)
         \<and> stats_categories (stats (after_category env cat (Threw e) c)) = stats_categories (stats c)
         \<and> stats_errors (stats (after_category env cat (Threw e) c)) = stats_errors (stats c) + 1"
  using assms
  by (simp add: after_category_def current_job_def appendJobError_def Let_def job_counts_def)

lemma job_counts_quiet: "job_counts (j\<lparr>processed_products := v\<rparr>) = job_counts j"
  by (simp add: job_counts_def)

lemma crawlCategory_counts:
  assumes quiet: "\<forall>u. crawlProduct env u = None"
    and run: "crawlCategory fuel env cat c = Some (ex, c')"
    and job: "map_option job_counts (current_job c) = Some v"
  shows "\<exists>job'. current_job c' = Some job' \<and> job_counts job' = v"
    and "stats_errors (stats c') = stats_errors (stats c)"
    and "stats_categories (stats c') = stats_categories (stats c)"
proof -
  note q = crawlCategory_quiet [of env job_counts, OF quiet job_counts_quiet run, of "jobId c"]
  then have "map_option job_counts (current_job c') = Some v"
    using job by (simp add: current_job_def)
  then show "\<exists>job'. current_job c' = Some job' \<and> job_counts job' = v" by auto
  show "stats_errors (stats c') = stats_errors (stats c)" using q by simp
  show "stats_categories (stats c') = stats_categories (stats c)" using q by simp
qed

lemma three_categories_middle_fails:
  assumes quiet: "\<forall>u. crawlProduct env u = None"
    and ns: "\<not> stopRequested c"
    and r1: "crawlCategory fuel env k1 c = Some (x1, c1)" and ok1: "returned x1"
    and ns1: "\<not> stopRequested (after_category env k1 x1 c1)"
    and r2: "crawlCategory fuel env k2 (after_category env k1 x1 c1) = Some (Threw e, c2)"
    and ns2: "\<not> stopRequested (after_category env k2 (Threw e) c2)"
    and r3: "crawlCategory fuel env k3 (after_category env k2 (Threw e) c2) = Some (x3, c3)"
    and ok3: "returned x3"
    and job: "current_job c = Some job"
  shows "\<exists>final job'. crawlCategories fuel env [k1, k2, k3] c = Some final
           \<and> final = after_category env k3 x3 c3
           \<and> current_job final = Some job'
           \<and> processed_categories job' = processed_categories job + 2
           \<and> errors job' = errors job + 1
           \<and> status job' = status job
           \<and> stats_categories (stats final) = stats_categories (stats c) + 2
           \<and> stats_errors (stats final) = stats_errors (stats c) + 1"
proof -
  let ?a1 = "after_category env k1 x1 c1"
  let ?a2 = "after_category env k2 (Threw e) c2"
  let ?a3 = "after_category env k3 x3 c3"
  have run: "crawlCategories fuel env [k1, k2, k3] c = Some ?a3"
    using ns r1 ns1 r2 ns2 r3 by simp
  have j0: "map_option job_counts (current_job c) = Some (job_counts job)"
    using job by simp
  from crawlCategory_counts [OF quiet r1 j0] obtain j1 where
    j1: "current_job c1 = Some j1" "job_counts j1 = job_counts job"
    and s1: "stats_errors (stats c1) = stats_errors (stats c)"
      "stats_categories (stats c1) = stats_categories (stats c)"
    by blast
  note a1 = after_category_returned [OF ok1 j1(1), of env k1]
  from crawlCategory_counts [OF quiet r2, of "(status j1, errors j1, processed_categories j1 + 1)"] a1
  obtain j2 where
    j2: "current_job c2 = Some j2"
      "job_counts j2 = (status j1, errors j1, processed_categories j1 + 1)"
    and s2: "stats_errors (stats c2) = stats_errors (stats ?a1)"
      "stats_categories (stats c2) = stats_categories (stats ?a1)"
    by blast
  note a2 = after_category_thrown [OF j2(1), of env k2 e]
  from crawlCategory_counts [OF quiet r3, of "(status j2, errors j2 + 1, processed_categories j2)"] a2
  obtain j3 where
    j3: "current_job c3 = Some j3"
      "job_counts j3 = (status j2, errors j2 + 1, processed_categories j2)"
    and s3: "stats_errors (stats c3) = stats_errors (stats ?a2)"
      "stats_categories (stats c3) = stats_categories (stats ?a2)"
    by blast
  note a3 = after_category_returned [OF ok3 j3(1), of env k3]
  then obtain j4 where j4: "current_job ?a3 = Some j4"
    "job_counts j4 = (status j3, errors j3, processed_categories j3 + 1)"
    by auto
  have "processed_categories j4 = processed_categories job + 2"
    "errors j4 = errors job + 1" "status j4 = status job"
    using j1(2) j2(2) j3(2) j4(2) by (simp_all add: job_counts_def)
  moreover have "stats_categories (stats ?a3) = stats_categories (stats c) + 2"
    using a1 a2 a3 s1 s2 s3 by simp
  moreover have "stats_errors (stats ?a3) = stats_errors (stats c) + 1"
    using a1 a2 a3 s1 s2 s3 by simp
  ultimately show ?thesis using run j4(1) by blast
qed

text \<open>
  C7. A failure thrown by one category is caught by the job loop: the loop goes on with the
  next category, the job's row gains one error-log entry with the time and the message,
  its error counter and the crawler's grow by one, and its status stays as it was. The same
  holds for a product whose visit throws, with the product's URL in front of the message.
  With three categories of which the second throws, and nothing else failing or asking to
  stop, the first and the third are traversed to their end and counted, and the error
  counters grow by exactly one. A job whose browser starts and whose categories are
  discovered never ends as \<open>failed\<close>: whatever its categories and products throw, it
  ends \<open>completed\<close> or \<open>stopped\<close>.
\<close>

theorem failure_containment:
  "(crawlCategory fuel env cat c = Some (Threw e, c1) \<and> \<not> stopRequested c
      \<and> current_job c1 = Some job \<longrightarrow>
        crawlCategories fuel env (cat # rest) c
          = crawlCategories fuel env rest (after_category env cat (Threw e) c1)
        \<and> (\<exists>job2. current_job (after_category env cat (Threw e) c1) = Some job2
              \<and> errors job2 = errors job + 1
              \<and> status job2 = status job
              \<and> length (stored_log job2) \<le> 100
              \<and> last (stored_log job2)
                  = \<lparr>timestamp = clock env (clock_reads c1), error = message e\<rparr>)
        \<and> stats_errors (stats (after_category env cat (Threw e) c1)) = stats_errors (stats c1) + 1
        \<and> stats_categories (stats (after_category env cat (Threw e) c1))
            = stats_categories (stats c1))
   \<and> (crawlProduct env u = Some e \<and> \<not> stopRequested c \<and> u \<notin> discoveredProducts c
      \<and> current_job c = Some job \<longrightarrow>
        processProducts env (u # others) c = processProducts env others (product_step env u c)
        \<and> handedOff (product_step env u c) = handedOff c @ [u]
        \<and> (\<exists>job2. current_job (product_step env u c) = Some job2
              \<and> errors job2 = errors job + 1
              \<and> status job2 = status job
              \<and> length (stored_log job2) \<le> 100
              \<and> last (stored_log job2)
                  = \<lparr>timestamp = clock env (clock_reads c), error = u @ '': '' @ message e\<rparr>)
        \<and> stats_errors (stats (product_step env u c)) = stats_errors (stats c) + 1
        \<and> stats_products (stats (product_step env u c)) = stats_products (stats c))
   \<and> ((\<forall>p. crawlProduct env p = None) \<and> \<not> stopRequested c
      \<and> crawlCategory fuel env k1 c = Some (x1, c1) \<and> returned x1
      \<and> \<not> stopRequested (after_category env k1 x1 c1)
      \<and> crawlCategory fuel env k2 (after_category env k1 x1 c1) = Some (Threw e, c2)
      \<and> \<not> stopRequested (after_category env k2 (Threw e) c2)
      \<and> crawlCategory fuel env k3 (after_category env k2 (Threw e) c2) = Some (x3, c3)
      \<and> returned x3 \<and> current_job c = Some job \<longrightarrow>
        (\<exists>final job'. crawlCategories fuel env [k1, k2, k3] c = Some final
           \<and> final = after_category env k3 x3 c3
           \<and> current_job final = Some job'
           \<and> processed_categories job' = processed_categories job + 2
           \<and> errors job' = errors job + 1
           \<and> status job' = status job
           \<and> stats_categories (stats final) = stats_categories (stats c) + 2
           \<and> stats_errors (stats final) = stats_errors (stats c) + 1))
   \<and> (startCrawl fuel env home jid c0 = Some (r, c') \<and> initBrowser_error env = None
      \<and> discoverCategories env home = Inr cats \<and> jobs c0 jid = Some job \<longrightarrow>
        (\<exists>s job'. r = Inr s \<and> jobs c' jid = Some job'
           \<and> (status job' = ''completed'' \<or> status job' = ''stopped'')))"
proof (intro conjI impI)
  assume h: "crawlCategory fuel env cat c = Some (Threw e, c1) \<and> \<not> stopRequested c
      \<and> current_job c1 = Some job"
  then have 1: "crawlCategory fuel env cat c = Some (Threw e, c1)" and 2: "\<not> stopRequested c"
    and 3: "current_job c1 = Some job" by simp_all
  note r = category_failure_contained [OF 1 2 3, of rest]
  show "crawlCategories fuel env (cat # rest) c
          = crawlCategories fuel env rest (after_category env cat (Threw e) c1)"
    using r by blast
  show "\<exists>job2. current_job (after_category env cat (Threw e) c1) = Some job2
              \<and> errors job2 = errors job + 1
              \<and> status job2 = status job
              \<and> length (stored_log job2) \<le> 100
              \<and> last (stored_log job2)
                  = \<lparr>timestamp = clock env (clock_reads c1), error = message e\<rparr>"
    using r by blast
  show "stats_errors (stats (after_category env cat (Threw e) c1)) = stats_errors (stats c1) + 1"
    using r by blast
  show "stats_categories (stats (after_category env cat (Threw e) c1))
            = stats_categories (stats c1)"
    using r by blast
next
  assume h: "crawlProduct env u = Some e \<and> \<not> stopRequested c \<and> u \<notin> discoveredProducts c
      \<and> current_job c = Some job"
  then have 1: "crawlProduct env u = Some e" and 2: "\<not> stopRequested c"
    and 3: "u \<notin> discoveredProducts c" and 4: "current_job c = Some job" by simp_all
  note r = product_failure_contained [OF 1 2 3 4, of others]
  show "processProducts env (u # others) c = processProducts env others (product_step env u c)"
    using r by blast
  show "handedOff (product_step env u c) = handedOff c @ [u]"
    using r by blast
  show "\<exists>job2. current_job (product_step env u c) = Some job2
              \<and> errors job2 = errors job + 1
              \<and> status job2 = status job
              \<and> length (stored_log job2) \<le> 100
              \<and> last (stored_log job2)
                  = \<lparr>timestamp = clock env (clock_reads c), error = u @ '': '' @ message e\<rparr>"
    using r by blast
  show "stats_errors (stats (product_step env u c)) = stats_errors (stats c) + 1"
    using r by blast
  show "stats_products (stats (product_step env u c)) = stats_products (stats c)"
    using r by blast
next
  assume h: "(\<forall>p. crawlProduct env p = None) \<and> \<not> stopRequested c
      \<and> crawlCategory fuel env k1 c = Some (x1, c1) \<and> returned x1
      \<and> \<not> stopRequested (after_category env k1 x1 c1)
      \<and> crawlCategory fuel env k2 (after_category env k1 x1 c1) = Some (Threw e, c2)
      \<and> \<not> stopRequested (after_category env k2 (Threw e) c2)
      \<and> crawlCategory fuel env k3 (after_category env k2 (Threw e) c2) = Some (x3, c3)
      \<and> returned x3 \<and> current_job c = Some job"
  then have 0: "\<forall>p. crawlProduct env p = None" and 1: "\<not> stopRequested c"
    and 2: "crawlCategory fuel env k1 c = Some (x1, c1)" and 3: "returned x1"
    and 4: "\<not> stopRequested (after_category env k1 x1 c1)"
    and 5: "crawlCategory fuel env k2 (after_category env k1 x1 c1) = Some (Threw e, c2)"
    and 6: "\<not> stopRequested (after_category env k2 (Threw e) c2)"
    and 7: "crawlCategory fuel env k3 (after_category env k2 (Threw e) c2) = Some (x3, c3)"
    and 8: "returned x3" and 9: "current_job c = Some job"
    by simp_all
  show "\<exists>final job'. crawlCategories fuel env [k1, k2, k3] c = Some final
           \<and> final = after_category env k3 x3 c3
           \<and> current_job final = Some job'
           \<and> processed_categories job' = processed_categories job + 2
           \<and> errors job' = errors job + 1
           \<and> status job' = status job
           \<and> stats_categories (stats final) = stats_categories (stats c) + 2
           \<and> stats_errors (stats final) = stats_errors (stats c) + 1"
    by (rule three_categories_middle_fails [OF 0 1 2 3 4 5 6 7 8 9])
next
  assume h: "startCrawl fuel env home jid c0 = Some (r, c') \<and> initBrowser_error env = None
      \<and> discoverCategories env home = Inr cats \<and> jobs c0 jid = Some job"
  then have 1: "startCrawl fuel env home jid c0 = Some (r, c')"
    and 2: "initBrowser_error env = None"
    and 3: "discoverCategories env home = Inr cats" and 4: "jobs c0 jid = Some job"
    by simp_all
  show "\<exists>s job'. r = Inr s \<and> jobs c' jid = Some job'
           \<and> (status job' = ''completed'' \<or> status job' = ''stopped'')"
    by (rule startCrawl_not_failed [OF 1 2 3 4])
qed

theorem failure_containment_witness:
  "crawlCategory (Suc 0) shop_crawl broken fresh_crawler
       = Some (Threw (Error ''net::ERR_CONNECTION_RESET''), after_failed_load)
   \<and> \<not> stopRequested fresh_crawler
   \<and> current_job after_failed_load = Some demo_job
   \<and> crawlCategories (Suc 0) shop_crawl [broken, bakery] fresh_crawler
       = crawlCategories (Suc 0) shop_crawl [bakery]
           (after_category shop_crawl broken (Threw (Error ''net::ERR_CONNECTION_RESET''))
              after_failed_load)
   \<and> (\<exists>job2. current_job (after_category shop_crawl broken
                   (Threw (Error ''net::ERR_CONNECTION_RESET'')) after_failed_load) = Some job2
         \<and> errors job2 = 1 \<and> status job2 = ''running''
         \<and> last (stored_log job2)
             = \<lparr>timestamp = ''T0'', error = ''net::ERR_CONNECTION_RESET''\<rparr>)
   \<and> crawlProduct flaky_shop ''https://shop.example/p/2'' = Some (Error ''Timeout 30000ms exceeded'')
   \<and> ''https://shop.example/p/2'' \<notin> discoveredProducts fresh_crawler
   \<and> current_job fresh_crawler = Some demo_job
   \<and> processProducts flaky_shop [''https://shop.example/p/2'', ''https://shop.example/p/3'']
         fresh_crawler
       = processProducts flaky_shop [''https://shop.example/p/3'']
           (product_step flaky_shop ''https://shop.example/p/2'' fresh_crawler)
   \<and> (\<exists>job2. current_job (product_step flaky_shop ''https://shop.example/p/2'' fresh_crawler)
                = Some job2
         \<and> errors job2 = 1 \<and> status job2 = ''running''
         \<and> last (stored_log job2)
             = \<lparr>timestamp = ''T0'',
                error = ''https://shop.example/p/2: Timeout 30000ms exceeded''\<rparr>)
   \<and> (\<forall>p. crawlProduct shop_crawl p = None)
   \<and> crawlCategory 2 shop_crawl dairy fresh_crawler = Some (LoopEnded, dairy_done)
   \<and> returned LoopEnded
   \<and> \<not> stopRequested after_dairy
   \<and> crawlCategory 2 shop_crawl broken after_dairy
       = Some (Threw (Error ''net::ERR_CONNECTION_RESET''), broken_done)
   \<and> \<not> stopRequested after_broken
   \<and> crawlCategory 2 shop_crawl bakery after_broken = Some (LoopEnded, bakery_done)
   \<and> (\<exists>final job'. crawlCategories 2 shop_crawl [dairy, broken, bakery] fresh_crawler = Some final
         \<and> final = after_category shop_crawl bakery LoopEnded bakery_done
         \<and> current_job final = Some job'
         \<and> processed_categories job' = 2 \<and> errors job' = 1 \<and> status job' = ''running''
         \<and> stats_categories (stats final) = 2 \<and> stats_errors (stats final) = 1)
   \<and> initBrowser_error shop_crawl = None
   \<and> discoverCategories shop_crawl ''https://shop.example'' = Inr [dairy, broken, bakery]
   \<and> jobs fresh_crawler ''job-1'' = Some demo_job
   \<and> (\<exists>s c' job'. startCrawl 2 shop_crawl ''https://shop.example'' ''job-1'' fresh_crawler
                      = Some (Inr s, c')
         \<and> jobs c' ''job-1'' = Some job'
         \<and> (status job' = ''completed'' \<or> status job' = ''stopped''))
   \<and> map_option (stats \<circ> snd)
        (startCrawl 2 shop_crawl ''https://shop.example'' ''job-1'' fresh_crawler)
       = Some \<lparr>stats_categories = 2, stats_products = 7, stats_images = 0, stats_barcodes = 0,
               stats_errors = 1\<rparr>
   \<and> map_option (handedOff \<circ> snd)
        (startCrawl 2 shop_crawl ''https://shop.example'' ''job-1'' fresh_crawler)
       = Some (dairy_links @ [''https://shop.example/p/6'', ''https://shop.example/p/7''])
   \<and> map_option (\<lambda>p. map_option status (jobs (snd p) ''job-1''))
        (startCrawl 2 shop_crawl ''https://shop.example'' ''job-1'' fresh_crawler)
       = Some (Some ''completed'')
   \<and> map_option (\<lambda>p. map_option errors (jobs (snd p) ''job-1''))
        (startCrawl 2 shop_crawl ''https://shop.example'' ''job-1'' fresh_crawler)
       = Some (Some 1)
   \<and> map_option (\<lambda>p. map_option processed_categories (jobs (snd p) ''job-1''))
        (startCrawl 2 shop_crawl ''https://shop.example'' ''job-1'' fresh_crawler)
       = Some (Some 2)"
proof -
  note T = failure_containment
  let ?e = "Error ''net::ERR_CONNECTION_RESET''"
  let ?t = "Error ''Timeout 30000ms exceeded''"
  let ?p2 = "''https://shop.example/p/2''"
  let ?X = "startCrawl 2 shop_crawl ''https://shop.example'' ''job-1'' fresh_crawler"
  have a1: "crawlCategory (Suc 0) shop_crawl broken fresh_crawler = Some (Threw ?e, after_failed_load)"
    by (simp add: crawlCategory_def shop_crawl_def broken_def fresh_crawler_def
        after_failed_load_def getPaginatedUrl_def Let_def)
  have a2: "\<not> stopRequested fresh_crawler"
    by (simp add: fresh_crawler_def)
  have a3: "current_job after_failed_load = Some demo_job"
    by (simp add: current_job_def after_failed_load_def fresh_crawler_def)
  from T [where fuel = "Suc 0" and env = shop_crawl and cat = broken and c = fresh_crawler
      and e = ?e and ?c1.0 = after_failed_load and job = demo_job and rest = "[bakery]"]
    a1 a2 a3
  have a4: "crawlCategories (Suc 0) shop_crawl [broken, bakery] fresh_crawler
       = crawlCategories (Suc 0) shop_crawl [bakery]
           (after_category shop_crawl broken (Threw ?e) after_failed_load)"
    and a5raw: "\<exists>job2. current_job (after_category shop_crawl broken (Threw ?e) after_failed_load)
              = Some job2
         \<and> errors job2 = errors demo_job + 1 \<and> status job2 = status demo_job
         \<and> length (stored_log job2) \<le> 100
         \<and> last (stored_log job2)
             = \<lparr>timestamp = clock shop_crawl (clock_reads after_failed_load), error = message ?e\<rparr>"
    by blast+
  have clk: "clock shop_crawl (clock_reads after_failed_load) = ''T0''"
    by (simp add: shop_crawl_def after_failed_load_def fresh_crawler_def decimal.simps)
  from a5raw have a5: "\<exists>job2. current_job (after_category shop_crawl broken (Threw ?e) after_failed_load)
              = Some job2
         \<and> errors job2 = 1 \<and> status job2 = ''running''
         \<and> last (stored_log job2)
             = \<lparr>timestamp = ''T0'', error = ''net::ERR_CONNECTION_RESET''\<rparr>"
    by (auto simp: clk demo_job_def)
  have b1: "crawlProduct flaky_shop ?p2 = Some ?t"
    by (simp add: flaky_shop_def)
  have b3: "?p2 \<notin> discoveredProducts fresh_crawler"
    by (simp add: fresh_crawler_def)
  have b4: "current_job fresh_crawler = Some demo_job"
    by (simp add: current_job_def fresh_crawler_def)
  from T [where env = flaky_shop and u = ?p2 and e = ?t and c = fresh_crawler and job = demo_job
      and others = "[''https://shop.example/p/3'']"]
    b1 a2 b3 b4
  have b5: "processProducts flaky_shop [?p2, ''https://shop.example/p/3''] fresh_crawler
       = processProducts flaky_shop [''https://shop.example/p/3'']
           (product_step flaky_shop ?p2 fresh_crawler)"
    and b6raw: "\<exists>job2. current_job (product_step flaky_shop ?p2 fresh_crawler) = Some job2
         \<and> errors job2 = errors demo_job + 1 \<and> status job2 = status demo_job
         \<and> length (stored_log job2) \<le> 100
         \<and> last (stored_log job2)
             = \<lparr>timestamp = clock flaky_shop (clock_reads fresh_crawler),
                error = ?p2 @ '': '' @ message ?t\<rparr>"
    by blast+
  have clk2: "clock flaky_shop (clock_reads fresh_crawler) = ''T0''"
    by (simp add: flaky_shop_def shop_crawl_def fresh_crawler_def decimal.simps)
  from b6raw have b6: "\<exists>job2. current_job (product_step flaky_shop ?p2 fresh_crawler) = Some job2
         \<and> errors job2 = 1 \<and> status job2 = ''running''
         \<and> last (stored_log job2)
             = \<lparr>timestamp = ''T0'',
                error = ''https://shop.example/p/2: Timeout 30000ms exceeded''\<rparr>"
    by (auto simp: clk2 demo_job_def)
  have pair: "X = Some (a, snd (the X))" if "map_option fst X = Some a"
    for X :: "(loop_exit \<times> crawler) option" and a
    using that by (cases X) auto
  have q0: "\<forall>p. crawlProduct shop_crawl p = None"
    by (simp add: shop_crawl_def)
  have "map_option fst (crawlCategory 2 shop_crawl dairy fresh_crawler) = Some LoopEnded"
    by code_simp
  then have q1: "crawlCategory 2 shop_crawl dairy fresh_crawler = Some (LoopEnded, dairy_done)"
    unfolding dairy_done_def by (rule pair)
  have q2: "returned LoopEnded" by simp
  have q3: "\<not> stopRequested after_dairy" by code_simp
  have "map_option fst (crawlCategory 2 shop_crawl broken after_dairy) = Some (Threw ?e)"
    by code_simp
  then have q4: "crawlCategory 2 shop_crawl broken after_dairy = Some (Threw ?e, broken_done)"
    unfolding broken_done_def by (rule pair)
  have q5: "\<not> stopRequested after_broken" by code_simp
  have "map_option fst (crawlCategory 2 shop_crawl bakery after_broken) = Some LoopEnded"
    by code_simp
  then have q6: "crawlCategory 2 shop_crawl bakery after_broken = Some (LoopEnded, bakery_done)"
    unfolding bakery_done_def by (rule pair)
  from T [where fuel = 2 and env = shop_crawl and c = fresh_crawler and ?k1.0 = dairy
      and ?x1.0 = LoopEnded and ?c1.0 = dairy_done and ?k2.0 = broken and e = ?e
      and ?c2.0 = broken_done and ?k3.0 = bakery and ?x3.0 = LoopEnded and ?c3.0 = bakery_done
      and job = demo_job]
    q0 a2 q1 q2 q3 q4 q5 q6 b4
  have q7raw: "\<exists>final job'. crawlCategories 2 shop_crawl [dairy, broken, bakery] fresh_crawler = Some final
         \<and> final = after_category shop_crawl bakery LoopEnded bakery_done
         \<and> current_job final = Some job'
         \<and> processed_categories job' = processed_categories demo_job + 2
         \<and> errors job' = errors demo_job + 1
         \<and> status job' = status demo_job
         \<and> stats_categories (stats final) = stats_categories (stats fresh_crawler) + 2
         \<and> stats_errors (stats final) = stats_errors (stats fresh_crawler) + 1"
    unfolding after_dairy_def after_broken_def by blast
  have v: "processed_categories demo_job + 2 = 2" "errors demo_job + 1 = 1"
    "status demo_job = ''running''" "stats_categories (stats fresh_crawler) + 2 = 2"
    "stats_errors (stats fresh_crawler) + 1 = 1"
    by (simp_all add: demo_job_def fresh_crawler_def)
  from q7raw have q7: "\<exists>final job'. crawlCategories 2 shop_crawl [dairy, broken, bakery] fresh_crawler = Some final
         \<and> final = after_category shop_crawl bakery LoopEnded bakery_done
         \<and> current_job final = Some job'
         \<and> processed_categories job' = 2 \<and> errors job' = 1 \<and> status job' = ''running''
         \<and> stats_categories (stats final) = 2 \<and> stats_errors (stats final) = 1"
    unfolding v .
  have c2: "initBrowser_error shop_crawl = None"
    by (simp add: shop_crawl_def)
  have c3: "discoverCategories shop_crawl ''https://shop.example'' = Inr [dairy, broken, bakery]"
    by (simp add: shop_crawl_def)
  have c4: "jobs fresh_crawler ''job-1'' = Some demo_job"
    by (simp add: fresh_crawler_def)
  have "?X \<noteq> None" by code_simp
  then obtain r c' where c1: "?X = Some (r, c')" by auto
  from T [where fuel = 2 and env = shop_crawl and home = "''https://shop.example''"
      and jid = "''job-1''" and ?c0.0 = fresh_crawler and r = r and c' = c'
      and cats = "[dairy, broken, bakery]" and job = demo_job]
    c1 c2 c3 c4
  have "\<exists>s job'. r = Inr s \<and> jobs c' ''job-1'' = Some job'
           \<and> (status job' = ''completed'' \<or> status job' = ''stopped'')"
    by blast
  then have c5: "\<exists>s c' job'. ?X = Some (Inr s, c') \<and> jobs c' ''job-1'' = Some job'
         \<and> (status job' = ''completed'' \<or> status job' = ''stopped'')"
    using c1 by blast
  have d1: "map_option (stats \<circ> snd) ?X
       = Some \<lparr>stats_categories = 2, stats_products = 7, stats_images = 0, stats_barcodes = 0,
               stats_errors = 1\<rparr>"
    by code_simp
  have d2: "map_option (handedOff \<circ> snd) ?X
       = Some (dairy_links @ [''https://shop.example/p/6'', ''https://shop.example/p/7''])"
    by code_simp
  have d3: "map_option (\<lambda>p. map_option status (jobs (snd p) ''job-1'')) ?X = Some (Some ''completed'')"
    by code_simp
  have d4: "map_option (\<lambda>p. map_option errors (jobs (snd p) ''job-1'')) ?X = Some (Some 1)"
    by code_simp
  have d5: "map_option (\<lambda>p. map_option processed_categories (jobs (snd p) ''job-1'')) ?X
       = Some (Some 2)"
    by code_simp
  show ?thesis
    by (intro conjI a1 a2 a3 a4 a5 b1 b3 b4 b5 b6 q0 q1 q2 q3 q4 q5 q6 q7 c2 c3 c4 c5
        d1 d2 d3 d4 d5)
qed

end
